theory Spec2Isabelle
  imports Main "HOL-Library.AList" "HOL-Library.Word"
begin

section \<open>Identifiers, enumerations and errors\<close>

text \<open>
  The query coordinator's RPC handlers of \<^verbatim>\<open>internal/querycoordv2/services.go\<close>.
  IDs are Go \<^verbatim>\<open>int64\<close> values that are only compared and copied, never computed with,
  so they are modelled as \<open>int\<close>; load percentages are \<^verbatim>\<open>int32\<close> values that are only
  compared and widened, modelled as \<open>int\<close> too. Logging and metrics are not modelled.
\<close>

type_synonym UniqueID = int

datatype StateCode =
    StateCode_Initializing | StateCode_Healthy | StateCode_Abnormal
  | StateCode_StandBy | StateCode_Stopping

datatype LoadStatus = LoadStatus_Invalid | LoadStatus_Loading | LoadStatus_Loaded

datatype LoadType = LoadType_UnKnownType | LoadType_LoadPartition | LoadType_LoadCollection

datatype PartitionState =
    PartitionState_NotExist | PartitionState_NotPresent | PartitionState_OnDisk
  | PartitionState_PartialInMemory | PartitionState_InMemory
  | PartitionState_PartialInGPU | PartitionState_InGPU

datatype TargetScope = CurrentTarget | NextTarget

datatype fmtarg = ArgInt int | ArgStr string

text \<open>
  Modelled from the spec: the \<^verbatim>\<open>merr\<close> error package is not part of the sources; the
  error kinds are the taxonomy of the specification's error-handling section, one
  constructor per \<^verbatim>\<open>merr.WrapErr...\<close> function that the handlers call, with the
  arguments of the call as payload. A message built by \<^verbatim>\<open>fmt.Sprintf\<close> is kept as its
  format string and arguments, and the string \<^verbatim>\<open>err.Error()\<close> as \<open>ErrorText err\<close>.
  \<open>Wrap\<close> is \<^verbatim>\<open>errors.Wrap\<close> on a non-nil error, \<open>ErrorsNew\<close> is \<^verbatim>\<open>errors.New\<close>,
  \<open>MultiErr\<close> is what \<^verbatim>\<open>multierr\<close> builds, and \<open>ErrExternal\<close> is an opaque error of a
  collaborator (a transport fault, a failed job).
\<close>

datatype error =
    ErrServiceNotReady StateCode
  | ErrCollectionNotLoaded UniqueID "string list"
  | ErrCollectionNotFullyLoaded UniqueID
  | ErrCollectionOnRecovering UniqueID "string list"
  | ErrPartitionNotLoaded "UniqueID list"
  | ErrParameterInvalid message message "string list"
  | ErrNodeNotFound UniqueID "message list"
  | ErrSegmentNotFound UniqueID "string list"
  | ErrSegmentNotLoaded UniqueID
  | ErrResourceGroupNotFound string
  | ErrChannelLack string "string list"
  | ErrChannelNotAvailable string
  | ErrorsNew message
  | ErrExternal string
  | Wrap error message
  | MultiErr "error list"
and message =
    Lit string
  | Sprintf string "fmtarg list"
  | ErrorText error

datatype ErrorCode =
    Code_ServiceNotReady | Code_CollectionNotLoaded | Code_CollectionNotFullyLoaded
  | Code_CollectionOnRecovering | Code_PartitionNotLoaded | Code_ParameterInvalid
  | Code_NodeNotFound | Code_SegmentNotFound | Code_SegmentNotLoaded
  | Code_ResourceGroupNotFound | Code_ChannelLack | Code_ChannelNotAvailable
  | Code_Unexpected

text \<open>
  Modelled from the spec: wrapping an error with a stage description preserves the
  underlying kind for programmatic matching, so the code of a wrapped error is the code
  of the error it wraps.
\<close>

fun Code :: "error \<Rightarrow> ErrorCode" where
  "Code (Wrap e m) = Code e"
| "Code (ErrServiceNotReady st) = Code_ServiceNotReady"
| "Code (ErrCollectionNotLoaded c ms) = Code_CollectionNotLoaded"
| "Code (ErrCollectionNotFullyLoaded c) = Code_CollectionNotFullyLoaded"
| "Code (ErrCollectionOnRecovering c ms) = Code_CollectionOnRecovering"
| "Code (ErrPartitionNotLoaded ps) = Code_PartitionNotLoaded"
| "Code (ErrParameterInvalid ex ac ms) = Code_ParameterInvalid"
| "Code (ErrNodeNotFound n ms) = Code_NodeNotFound"
| "Code (ErrSegmentNotFound sg ms) = Code_SegmentNotFound"
| "Code (ErrSegmentNotLoaded sg) = Code_SegmentNotLoaded"
| "Code (ErrResourceGroupNotFound rg) = Code_ResourceGroupNotFound"
| "Code (ErrChannelLack ch ms) = Code_ChannelLack"
| "Code (ErrChannelNotAvailable ch) = Code_ChannelNotAvailable"
| "Code (ErrorsNew m) = Code_Unexpected"
| "Code (ErrExternal m) = Code_Unexpected"
| "Code (MultiErr es) = Code_Unexpected"

text \<open>
  A \<^verbatim>\<open>commonpb.Status\<close>: \<^verbatim>\<open>merr.Success()\<close>, or the status that \<^verbatim>\<open>merr.Status(err)\<close>
  builds from a non-nil error. \<^verbatim>\<open>merr.Status(nil)\<close> is the success status.
\<close>

datatype Status = Success | Failure error

fun merr_Status :: "error option \<Rightarrow> Status" where
  "merr_Status None = Success"
| "merr_Status (Some e) = Failure e"

text \<open>\<^verbatim>\<open>errors.Wrap(err, msg)\<close>: nil stays nil.\<close>

fun errors_Wrap :: "error option \<Rightarrow> message \<Rightarrow> error option" where
  "errors_Wrap None m = None"
| "errors_Wrap (Some e) m = Some (Wrap e m)"

text \<open>\<^verbatim>\<open>multierr.AppendInto(&into, err)\<close> with a non-nil \<^verbatim>\<open>err\<close>.\<close>

fun multierr_AppendInto :: "error option \<Rightarrow> error \<Rightarrow> error option" where
  "multierr_AppendInto None e = Some e"
| "multierr_AppendInto (Some (MultiErr es)) e = Some (MultiErr (es @ [e]))"
| "multierr_AppendInto (Some l) e = Some (MultiErr [l, e])"

text \<open>
  Modelled from the spec: \<^verbatim>\<open>merr.CheckHealthy\<close> is the coordinator-health precondition
  that every operation checks first; \<^verbatim>\<open>merr.CheckHealthyStandby\<close> tolerates the standby state
  as well (the metrics path).
\<close>

definition CheckHealthy :: "StateCode \<Rightarrow> error option" where
  "CheckHealthy st = (if st = StateCode_Healthy then None else Some (ErrServiceNotReady st))"

definition CheckHealthyStandby :: "StateCode \<Rightarrow> error option" where
  "CheckHealthyStandby st =
     (if st = StateCode_Healthy \<or> st = StateCode_StandBy then None
      else Some (ErrServiceNotReady st))"

text \<open>
  What a handler does: it returns a response together with Go's second result, the
  \<^verbatim>\<open>error\<close> (\<open>None\<close> is \<^verbatim>\<open>nil\<close>), or it panics on a nil dereference.
\<close>

datatype 'r outcome = Return 'r "error option" | Panic


section \<open>The data the handlers read\<close>

text \<open>
  The objects of the \<^verbatim>\<open>meta\<close>, \<^verbatim>\<open>session\<close> and protobuf packages, with the fields and
  getters that the handlers use. A replica's node set is the list of its members
  (\<^verbatim>\<open>GetNodes\<close>), and \<^verbatim>\<open>Contains\<close> is membership in it.
\<close>

record Collection =
  col_CollectionID :: UniqueID
  col_Status :: LoadStatus
  col_LoadPercentage :: int
  col_ReleasedPartitions :: "UniqueID list"
  col_refreshNotifier :: "nat option"

record Partition =
  part_PartitionID :: UniqueID
  part_CollectionID :: UniqueID
  part_LoadPercentage :: int

record Replica =
  rep_ID :: UniqueID
  rep_CollectionID :: UniqueID
  rep_ResourceGroup :: string
  rep_Nodes :: "UniqueID list"

definition Contains :: "Replica \<Rightarrow> UniqueID \<Rightarrow> bool" where
  "Contains replica node = (node \<in> set (rep_Nodes replica))"

record Segment =
  seg_ID :: UniqueID
  seg_CollectionID :: UniqueID
  seg_Node :: UniqueID

record LeaderView =
  lv_ID :: UniqueID
  lv_CollectionID :: UniqueID
  lv_Channel :: string
  lv_Version :: int

record NodeInfo =
  ni_ID :: UniqueID
  ni_Addr :: string
  ni_Hostname :: string
  ni_IsStoppingState :: bool

record ResourceGroupConfig =
  rgc_Requests :: int
  rgc_Limits :: int

record ResourceGroup =
  rg_Nodes :: "UniqueID list"
  rg_Capacity :: int
  rg_Config :: ResourceGroupConfig

record ComponentStates =
  cs_Status :: Status
  cs_StateCode :: StateCode

record SegmentInfo =
  si_SegmentID :: UniqueID
  si_CollectionID :: UniqueID
  si_NodeIds :: "UniqueID list"

record ReplicaInfo =
  ri_ReplicaID :: UniqueID
  ri_CollectionID :: UniqueID
  ri_NodeIds :: "UniqueID list"
  ri_ResourceGroupName :: string

datatype SegmentDistFilter = WithCollectionID UniqueID | WithNodeID UniqueID | WithSegmentID UniqueID

datatype LeaderViewFilter = WithChannelName2LeaderView string

section \<open>Requests and responses\<close>

record ShowCollectionsRequest =
  scq_CollectionIDs :: "UniqueID list"

record ShowCollectionsResponse =
  scr_Status :: Status
  scr_CollectionIDs :: "UniqueID list"
  scr_InMemoryPercentages :: "int list"
  scr_QueryServiceAvailable :: "bool list"
  scr_RefreshProgress :: "int list"

record ShowPartitionsRequest =
  spq_CollectionID :: UniqueID
  spq_PartitionIDs :: "UniqueID list"

record ShowPartitionsResponse =
  spr_Status :: Status
  spr_PartitionIDs :: "UniqueID list"
  spr_InMemoryPercentages :: "int list"
  spr_RefreshProgress :: "int list"

record LoadCollectionRequest =
  lcq_CollectionID :: UniqueID
  lcq_ReplicaNumber :: int
  lcq_ResourceGroups :: "string list"
  lcq_Refresh :: bool

record ReleaseCollectionRequest =
  rcq_CollectionID :: UniqueID

record LoadPartitionsRequest =
  lpq_CollectionID :: UniqueID
  lpq_PartitionIDs :: "UniqueID list"
  lpq_ReplicaNumber :: int
  lpq_ResourceGroups :: "string list"
  lpq_Refresh :: bool

record ReleasePartitionsRequest =
  rpq_CollectionID :: UniqueID
  rpq_PartitionIDs :: "UniqueID list"

record GetPartitionStatesRequest =
  gpq_CollectionID :: UniqueID
  gpq_PartitionIDs :: "UniqueID list"

record PartitionStates =
  ps_PartitionID :: UniqueID
  ps_State :: PartitionState

record GetPartitionStatesResponse =
  gpr_Status :: Status
  gpr_PartitionDescriptions :: "PartitionStates list"

record GetSegmentInfoRequest =
  gsq_CollectionID :: UniqueID
  gsq_SegmentIDs :: "UniqueID list"

record GetSegmentInfoResponse =
  gsr_Status :: Status
  gsr_Infos :: "SegmentInfo list"

record SyncNewCreatedPartitionRequest =
  snq_CollectionID :: UniqueID
  snq_PartitionID :: UniqueID

record LoadBalanceRequest =
  lbq_CollectionID :: UniqueID
  lbq_SourceNodeIDs :: "UniqueID list"
  lbq_DstNodeIDs :: "UniqueID list"
  lbq_SealedSegmentIDs :: "UniqueID list"

record ShowConfigurationsRequest =
  cfq_Pattern :: string

record ShowConfigurationsResponse =
  cfr_Status :: Status
  cfr_Configuations :: "(string \<times> string) list"

record GetMetricsRequest =
  gmq_Request :: string

record GetMetricsResponse =
  gmr_Status :: Status
  gmr_Response :: string
  gmr_ComponentName :: string

record GetReplicasRequest =
  grq_CollectionID :: UniqueID
  grq_WithShardNodes :: bool

text \<open>The status of a \<^verbatim>\<open>GetReplicasResponse\<close> is a pointer that one return leaves nil.\<close>

record GetReplicasResponse =
  grr_Status :: "Status option"
  grr_Replicas :: "ReplicaInfo list"

record GetShardLeadersRequest =
  glq_CollectionID :: UniqueID

record ShardLeadersList =
  sll_ChannelName :: string
  sll_NodeIds :: "UniqueID list"
  sll_NodeAddrs :: "string list"

text \<open>A nil \<^verbatim>\<open>Shards\<close> slice is the empty list.\<close>

record GetShardLeadersResponse =
  glr_Status :: Status
  glr_Shards :: "ShardLeadersList list"

record CheckHealthResponse =
  chr_Status :: Status
  chr_IsHealthy :: bool
  chr_Reasons :: "message list"

record CreateResourceGroupRequest =
  crq_ResourceGroup :: string
  crq_Config :: ResourceGroupConfig

record UpdateResourceGroupsRequest =
  urq_ResourceGroups :: "(string \<times> ResourceGroupConfig) list"

record DropResourceGroupRequest =
  drq_ResourceGroup :: string

record TransferNodeRequest =
  tnq_SourceResourceGroup :: string
  tnq_TargetResourceGroup :: string
  tnq_NumNode :: int

record TransferReplicaRequest =
  trq_SourceResourceGroup :: string
  trq_TargetResourceGroup :: string
  trq_CollectionID :: UniqueID
  trq_NumReplica :: int

record ListResourceGroupsResponse =
  lrr_Status :: Status
  lrr_ResourceGroups :: "string list"

record DescribeResourceGroupRequest =
  dgq_ResourceGroup :: string

record CommonNodeInfo =
  cni_NodeId :: UniqueID
  cni_Address :: string
  cni_Hostname :: string

record ResourceGroupInfo =
  rgi_Name :: string
  rgi_Capacity :: "32 word"
  rgi_NumAvailableNode :: "32 word"
  rgi_NumLoadedReplica :: "UniqueID \<rightharpoonup> 32 word"
  rgi_NumOutgoingNode :: "UniqueID \<rightharpoonup> 32 word"
  rgi_NumIncomingNode :: "UniqueID \<rightharpoonup> 32 word"
  rgi_Config :: ResourceGroupConfig
  rgi_Nodes :: "CommonNodeInfo list"

record DescribeResourceGroupResponse =
  dgr_Status :: Status
  dgr_ResourceGroup :: "ResourceGroupInfo option"

section \<open>The server and its collaborators\<close>

text \<open>The jobs that the handlers hand to the scheduler, each built from its request.\<close>

datatype Job =
    LoadCollectionJob LoadCollectionRequest
  | ReleaseCollectionJob ReleaseCollectionRequest
  | LoadPartitionJob LoadPartitionsRequest
  | ReleasePartitionJob ReleasePartitionsRequest
  | SyncNewCreatedPartitionJob SyncNewCreatedPartitionRequest

text \<open>
  The calls by which a handler asks a collaborator outside this file to change its own
  state, in the order in which they are made.
\<close>

datatype Call =
    FailedLoadCache_TryExpire
  | FailedLoadCache_Remove UniqueID
  | Call_UpdateNextTarget UniqueID
  | Call_balanceSegments UniqueID Replica UniqueID "UniqueID list" "Segment list" bool bool
  | Call_AddResourceGroup string ResourceGroupConfig
  | Call_UpdateResourceGroups "(string \<times> ResourceGroupConfig) list"
  | Call_RemoveResourceGroup string
  | Call_TransferNode string string int
  | Call_RecoverAllCollection
  | Call_TransferReplica UniqueID string string int

text \<open>
  The \<^verbatim>\<open>Server\<close> as a handler sees it. The managers, the cluster client, the job
  package and the helpers of other files are not part of the sources, so what each of
  their methods answers is a field of this record, named after the method; a method that
  returns a value and an error answers a sum, \<open>Inl\<close> the error. Three fields are state
  that the handlers of this file change themselves: the collections held by the
  collection manager (\<^verbatim>\<open>SetRefreshNotifier\<close> writes into the collection that
  \<^verbatim>\<open>GetCollection\<close> returned), the queue of the job scheduler, and the record of the
  calls made to the collaborators. What a job or a collaborator does to its own state
  while a handler waits is outside this file and is not modelled.
\<close>

record server =
  State :: StateCode
  meta_GetCollection :: "UniqueID \<Rightarrow> Collection option"
  meta_GetAllCollections :: "Collection list"
  meta_GetAll :: "UniqueID list"
  meta_CalculateLoadPercentage :: "UniqueID \<Rightarrow> int"
  meta_GetPartitionsByCollection :: "UniqueID \<Rightarrow> Partition list"
  meta_GetPartitionLoadPercentage :: "UniqueID \<Rightarrow> int"
  meta_GetPartition :: "UniqueID \<Rightarrow> Partition option"
  meta_GetLoadType :: "UniqueID \<Rightarrow> LoadType"
  Collection_IsRefreshed :: "Collection \<Rightarrow> bool"
  GlobalFailedLoadCache_Get :: "UniqueID \<Rightarrow> error option"
  meta_DefaultResourceGroupName :: string
  meta_GetByCollectionAndNode :: "UniqueID \<Rightarrow> UniqueID \<Rightarrow> Replica option"
  meta_GetByCollection :: "UniqueID \<Rightarrow> Replica list"
  meta_GetByResourceGroup :: "string \<Rightarrow> Replica list"
  meta_GetResourceGroupByCollection :: "UniqueID \<Rightarrow> string list"
  meta_TransferReplica :: "UniqueID \<Rightarrow> string \<Rightarrow> string \<Rightarrow> int \<Rightarrow> error option"
  ResourceManager_ContainResourceGroup :: "string \<Rightarrow> bool"
  ResourceManager_GetResourceGroup :: "string \<Rightarrow> ResourceGroup option"
  ResourceManager_ListResourceGroups :: "string list"
  ResourceManager_ContainsNode :: "string \<Rightarrow> UniqueID \<Rightarrow> bool"
  ResourceManager_AddResourceGroup :: "string \<Rightarrow> ResourceGroupConfig \<Rightarrow> error option"
  ResourceManager_UpdateResourceGroups :: "(string \<times> ResourceGroupConfig) list \<Rightarrow> error option"
  ResourceManager_RemoveResourceGroup :: "string \<Rightarrow> error option"
  ResourceManager_TransferNode :: "string \<Rightarrow> string \<Rightarrow> int \<Rightarrow> error option"
  nodeMgr_Get :: "UniqueID \<Rightarrow> NodeInfo option"
  nodeMgr_GetAll :: "NodeInfo list"
  nodeMgr_IsStoppingNode :: "UniqueID \<Rightarrow> error + bool"
  SegmentDistManager_GetByFilter :: "SegmentDistFilter list \<Rightarrow> Segment list"
  LeaderViewManager_GetByFilter :: "LeaderViewFilter \<Rightarrow> LeaderView list"
  targetMgr_GetSealedSegment :: "UniqueID \<Rightarrow> UniqueID \<Rightarrow> TargetScope \<Rightarrow> UniqueID option"
  targetMgr_GetDmChannelsByCollection :: "UniqueID \<Rightarrow> TargetScope \<Rightarrow> string list"
  targetMgr_GetSealedSegmentsByCollection :: "UniqueID \<Rightarrow> TargetScope \<Rightarrow> UniqueID list"
  targetObserver_UpdateNextTarget :: "UniqueID \<Rightarrow> error + nat"
  cluster_GetComponentStates :: "UniqueID \<Rightarrow> error + ComponentStates"
  merr_AnalyzeState :: "string \<Rightarrow> UniqueID \<Rightarrow> ComponentStates \<Rightarrow> error option"
  checkers_CheckLeaderAvailable :: "LeaderView \<Rightarrow> UniqueID list \<Rightarrow> error option"
  filterDupLeaders :: "(UniqueID \<times> LeaderView) list \<Rightarrow> (UniqueID \<times> LeaderView) list"
  checkAnyReplicaAvailable :: "UniqueID \<Rightarrow> bool"
  getCollectionSegmentInfo :: "UniqueID \<Rightarrow> SegmentInfo list"
  utils_MergeMetaSegmentIntoSegmentInfo :: "Segment list \<Rightarrow> SegmentInfo"
  fillReplicaInfo :: "Replica \<Rightarrow> bool \<Rightarrow> ReplicaInfo"
  balanceSegments ::
    "UniqueID \<Rightarrow> Replica \<Rightarrow> UniqueID \<Rightarrow> UniqueID list \<Rightarrow> Segment list \<Rightarrow> bool \<Rightarrow> bool \<Rightarrow> error option"
  Params_GetComponentConfigurations :: "string \<Rightarrow> string \<Rightarrow> (string \<times> string) list"
  metricsinfo_ConstructComponentName :: string
  metricsinfo_ParseMetricType :: "string \<Rightarrow> error + string"
  metricsinfo_SystemInfoMetrics :: string
  metricsinfo_MsgUnimplementedMetric :: string
  getSystemInfoMetrics :: "GetMetricsRequest \<Rightarrow> string \<times> error option"
  job_Wait :: "Job \<Rightarrow> error option"
  jobScheduler :: "Job list"
  calls :: "Call list"


section \<open>Sets and maps of the handlers\<close>

text \<open>
  A \<^verbatim>\<open>typeutil.Set\<close> is modelled as the list of its elements without repetition, in the
  order of first insertion, and \<^verbatim>\<open>Collect\<close> returns that list. Go leaves the order in
  which a set or a map is iterated unspecified; the model iterates in insertion order.
\<close>

definition Set_Insert1 :: "'a list \<Rightarrow> 'a \<Rightarrow> 'a list" where
  "Set_Insert1 xs x = (if x \<in> set xs then xs else xs @ [x])"

definition Set_Insert :: "'a list \<Rightarrow> 'a list \<Rightarrow> 'a list" where
  "Set_Insert xs items = foldl Set_Insert1 xs items"

definition NewUniqueSet :: "UniqueID list \<Rightarrow> UniqueID list" where
  "NewUniqueSet items = Set_Insert [] items"

text \<open>\<^verbatim>\<open>lo.SliceToMap\<close>: of two elements with one key, the later one stays.\<close>

definition SliceToMap :: "'a list \<Rightarrow> ('a \<Rightarrow> 'k \<times> 'v) \<Rightarrow> ('k \<rightharpoonup> 'v)" where
  "SliceToMap xs f = map_of (rev (map f xs))"

text \<open>\<^verbatim>\<open>m[k]++\<close> on a map of \<^verbatim>\<open>int32\<close> counters: a missing key counts from zero.\<close>

definition incr :: "(UniqueID \<rightharpoonup> 32 word) \<Rightarrow> UniqueID \<Rightarrow> (UniqueID \<rightharpoonup> 32 word)" where
  "incr m k = m(k \<mapsto> (case m k of None \<Rightarrow> 0 | Some v \<Rightarrow> v) + 1)"

section \<open>Loading, releasing and refreshing\<close>

definition refreshCollection :: "server \<Rightarrow> UniqueID \<Rightarrow> error option \<times> server" where
  "refreshCollection s collectionID =
     (case meta_GetCollection s collectionID of
        None \<Rightarrow> (Some (ErrCollectionNotLoaded collectionID []), s)
      | Some collection \<Rightarrow>
          if col_Status collection \<noteq> LoadStatus_Loaded
          then (Some (ErrCollectionNotLoaded collectionID [''collection not fully loaded'']), s)
          else
            let s1 = s\<lparr>calls := calls s @ [Call_UpdateNextTarget collectionID]\<rparr>
            in (case targetObserver_UpdateNextTarget s collectionID of
                  Inl err \<Rightarrow> (Some err, s1)
                | Inr readyCh \<Rightarrow>
                    (None, s1\<lparr>meta_GetCollection := (meta_GetCollection s1)
                       (collectionID \<mapsto> collection\<lparr>col_refreshNotifier := Some readyCh\<rparr>)\<rparr>)))"

fun checkResourceGroup_loop :: "server \<Rightarrow> string list \<Rightarrow> string list \<Rightarrow> string list \<Rightarrow> error option" where
  "checkResourceGroup_loop s collectionUsedRG resourceGroups [] = None"
| "checkResourceGroup_loop s collectionUsedRG resourceGroups (rgName # rest) =
     (if length collectionUsedRG > 0 \<and> rgName \<notin> set collectionUsedRG
      then Some (ErrParameterInvalid (Lit ''created resource group(s)'') (Lit rgName)
                   [''given resource group not found''])
      else if length resourceGroups > 1 \<and> rgName = meta_DefaultResourceGroupName s
      then Some (ErrParameterInvalid
                   (Lit ''no default resource group mixed with the other resource group(s)'')
                   (Lit rgName) [])
      else checkResourceGroup_loop s collectionUsedRG resourceGroups rest)"

definition checkResourceGroup :: "server \<Rightarrow> UniqueID \<Rightarrow> string list \<Rightarrow> error option" where
  "checkResourceGroup s collectionID resourceGroups =
     (if length resourceGroups \<noteq> 0
      then checkResourceGroup_loop s (meta_GetResourceGroupByCollection s collectionID)
             resourceGroups resourceGroups
      else None)"

text \<open>\<^verbatim>\<open>s.jobScheduler.Add(job)\<close> followed by \<^verbatim>\<open>job.Wait()\<close>.\<close>

definition AddAndWait :: "server \<Rightarrow> Job \<Rightarrow> error option \<times> server" where
  "AddAndWait s j = (job_Wait s j, s\<lparr>jobScheduler := jobScheduler s @ [j]\<rparr>)"

definition LoadCollection :: "server \<Rightarrow> LoadCollectionRequest \<Rightarrow> Status outcome \<times> server" where
  "LoadCollection s req =
     (case CheckHealthy (State s) of
        Some err \<Rightarrow>
          (Return (merr_Status (errors_Wrap (Some err) (Lit ''failed to load collection''))) None, s)
      | None \<Rightarrow>
          if lcq_Refresh req
          then (let (err, s1) = refreshCollection s (lcq_CollectionID req)
                in (Return (merr_Status err) None, s1))
          else
            (case checkResourceGroup s (lcq_CollectionID req) (lcq_ResourceGroups req) of
               Some err \<Rightarrow>
                 (Return (merr_Status (errors_Wrap (Some err) (Lit ''failed to load collection''))) None, s)
             | None \<Rightarrow>
                 (let (err, s1) = AddAndWait s (LoadCollectionJob req)
                  in (case err of
                        Some e \<Rightarrow>
                          (Return (merr_Status (errors_Wrap (Some e) (Lit ''failed to load collection''))) None, s1)
                      | None \<Rightarrow> (Return Success None, s1)))))"

definition LoadPartitions :: "server \<Rightarrow> LoadPartitionsRequest \<Rightarrow> Status outcome \<times> server" where
  "LoadPartitions s req =
     (case CheckHealthy (State s) of
        Some err \<Rightarrow>
          (Return (merr_Status (errors_Wrap (Some err) (Lit ''failed to load partitions''))) None, s)
      | None \<Rightarrow>
          if lpq_Refresh req
          then (let (err, s1) = refreshCollection s (lpq_CollectionID req)
                in (Return (merr_Status err) None, s1))
          else
            (case checkResourceGroup s (lpq_CollectionID req) (lpq_ResourceGroups req) of
               Some err \<Rightarrow>
                 (Return (merr_Status (errors_Wrap (Some err) (Lit ''failed to load partitions''))) None, s)
             | None \<Rightarrow>
                 (let (err, s1) = AddAndWait s (LoadPartitionJob req)
                  in (case err of
                        Some e \<Rightarrow>
                          (Return (merr_Status (errors_Wrap (Some e) (Lit ''failed to load partitions''))) None, s1)
                      | None \<Rightarrow> (Return Success None, s1)))))"

definition ReleaseCollection :: "server \<Rightarrow> ReleaseCollectionRequest \<Rightarrow> Status outcome \<times> server" where
  "ReleaseCollection s req =
     (case CheckHealthy (State s) of
        Some err \<Rightarrow>
          (Return (merr_Status (errors_Wrap (Some err) (Lit ''failed to release collection''))) None, s)
      | None \<Rightarrow>
          (let (err, s1) = AddAndWait s (ReleaseCollectionJob req)
           in (case err of
                 Some e \<Rightarrow>
                   (Return (merr_Status (errors_Wrap (Some e) (Lit ''failed to release collection''))) None, s1)
               | None \<Rightarrow>
                   (Return Success None,
                    s1\<lparr>calls := calls s1 @ [FailedLoadCache_Remove (rcq_CollectionID req)]\<rparr>))))"

definition ReleasePartitions :: "server \<Rightarrow> ReleasePartitionsRequest \<Rightarrow> Status outcome \<times> server" where
  "ReleasePartitions s req =
     (case CheckHealthy (State s) of
        Some err \<Rightarrow>
          (Return (merr_Status (errors_Wrap (Some err) (Lit ''failed to release partitions''))) None, s)
      | None \<Rightarrow>
          if length (rpq_PartitionIDs req) = 0
          then (Return (merr_Status (Some (ErrParameterInvalid (Lit ''any partition'')
                          (Lit ''empty partition list'') []))) None, s)
          else
            (let (err, s1) = AddAndWait s (ReleasePartitionJob req)
             in (case err of
                   Some e \<Rightarrow>
                     (Return (merr_Status (errors_Wrap (Some e) (Lit ''failed to release partitions''))) None, s1)
                 | None \<Rightarrow>
                     (Return Success None,
                      s1\<lparr>calls := calls s1 @ [FailedLoadCache_Remove (rpq_CollectionID req)]\<rparr>))))"

definition SyncNewCreatedPartition ::
  "server \<Rightarrow> SyncNewCreatedPartitionRequest \<Rightarrow> Status outcome \<times> server" where
  "SyncNewCreatedPartition s req =
     (case CheckHealthy (State s) of
        Some err \<Rightarrow> (Return (merr_Status (Some err)) None, s)
      | None \<Rightarrow>
          (let (err, s1) = AddAndWait s (SyncNewCreatedPartitionJob req)
           in (case err of
                 Some e \<Rightarrow> (Return (merr_Status (Some e)) None, s1)
               | None \<Rightarrow> (Return Success None, s1))))"

section \<open>The health probe\<close>

text \<open>
  \<^verbatim>\<open>checkNodeHealth\<close> starts one task per node in an \<^verbatim>\<open>errgroup\<close> and waits for all of
  them. A task whose \<^verbatim>\<open>GetComponentStates\<close> call fails returns that error; a task whose
  node answers a state that \<^verbatim>\<open>AnalyzeState\<close> rejects appends a reason and returns nil.
  \<^verbatim>\<open>group.Wait()\<close> returns the error of the first task that failed. The tasks are
  modelled as finishing in the order of the node list, so the reasons are in that order
  and the error is that of the first failing node of the list.
\<close>

fun checkNodeHealth_tasks :: "server \<Rightarrow> NodeInfo list \<Rightarrow> message list \<times> error option" where
  "checkNodeHealth_tasks s [] = ([], None)"
| "checkNodeHealth_tasks s (node # nodes) =
     (let (errReasons, err) = checkNodeHealth_tasks s nodes
      in (case cluster_GetComponentStates s (ni_ID node) of
            Inl e \<Rightarrow> (errReasons, Some e)
          | Inr resp \<Rightarrow>
              (case merr_AnalyzeState s ''QueryNode'' (ni_ID node) resp of
                 Some e \<Rightarrow> (ErrorText e # errReasons, err)
               | None \<Rightarrow> (errReasons, err))))"

definition checkNodeHealth :: "server \<Rightarrow> message list \<times> error option" where
  "checkNodeHealth s = checkNodeHealth_tasks s (nodeMgr_GetAll s)"

definition CheckHealth :: "server \<Rightarrow> CheckHealthResponse outcome" where
  "CheckHealth s =
     (case CheckHealthy (State s) of
        Some err \<Rightarrow>
          Return \<lparr>chr_Status = merr_Status (Some err), chr_IsHealthy = False,
                  chr_Reasons = [ErrorText err]\<rparr> None
      | None \<Rightarrow>
          (let (errReasons, err) = checkNodeHealth s
           in if err \<noteq> None \<or> length errReasons \<noteq> 0
              then Return \<lparr>chr_Status = Success, chr_IsHealthy = False,
                           chr_Reasons = errReasons\<rparr> None
              else Return \<lparr>chr_Status = Success, chr_IsHealthy = True,
                           chr_Reasons = errReasons\<rparr> None))"


section \<open>Load balance admission\<close>

definition isStoppingNode :: "server \<Rightarrow> UniqueID \<Rightarrow> error option" where
  "isStoppingNode s nodeID =
     (case nodeMgr_IsStoppingNode s nodeID of
        Inl err \<Rightarrow> Some err
      | Inr isStopping \<Rightarrow>
          if isStopping
          then Some (ErrorsNew (Sprintf
                 ''failed to balance due to the source/destination node[%d] is stopping''
                 [ArgInt nodeID]))
          else None)"

text \<open>The loop over the destinations that the request names.\<close>

fun LoadBalance_dstNodes :: "Replica \<Rightarrow> UniqueID list \<Rightarrow> UniqueID list \<Rightarrow> error + UniqueID list" where
  "LoadBalance_dstNodes replica [] dstNodeSet = Inr dstNodeSet"
| "LoadBalance_dstNodes replica (dstNode # rest) dstNodeSet =
     (if \<not> Contains replica dstNode
      then Inl (ErrNodeNotFound dstNode [Lit ''destination node not found in the same replica''])
      else LoadBalance_dstNodes replica rest (Set_Insert dstNodeSet [dstNode]))"

definition LoadBalance_dstNodeSet :: "Replica \<Rightarrow> LoadBalanceRequest \<Rightarrow> error + UniqueID list" where
  "LoadBalance_dstNodeSet replica req =
     (if length (lbq_DstNodeIDs req) = 0
      then Inr (Set_Insert [] (rep_Nodes replica))
      else LoadBalance_dstNodes replica (lbq_DstNodeIDs req) [])"

text \<open>The loop that checks whether each destination is healthy.\<close>

fun LoadBalance_checkDst :: "server \<Rightarrow> UniqueID list \<Rightarrow> error option" where
  "LoadBalance_checkDst s [] = None"
| "LoadBalance_checkDst s (dstNode # rest) =
     (case isStoppingNode s dstNode of
        Some err \<Rightarrow>
          Some (Wrap err (Sprintf
            ''can't balance, because the destination node[%d] is invalid'' [ArgInt dstNode]))
      | None \<Rightarrow> LoadBalance_checkDst s rest)"

text \<open>The loop over the sealed segments that the request names.\<close>

fun LoadBalance_sealed ::
  "server \<Rightarrow> (UniqueID \<rightharpoonup> Segment) \<Rightarrow> UniqueID list \<Rightarrow> Segment list \<Rightarrow> error + Segment list" where
  "LoadBalance_sealed s segmentsMap [] toBalance = Inr toBalance"
| "LoadBalance_sealed s segmentsMap (segmentID # rest) toBalance =
     (case segmentsMap segmentID of
        None \<Rightarrow> Inl (ErrSegmentNotFound segmentID [''segment not found in source node''])
      | Some segment \<Rightarrow>
          (let existInTarget =
                 (targetMgr_GetSealedSegment s (seg_CollectionID segment) (seg_ID segment)
                    CurrentTarget \<noteq> None)
           in if \<not> existInTarget
              then LoadBalance_sealed s segmentsMap rest toBalance
              else LoadBalance_sealed s segmentsMap rest (Set_Insert toBalance [segment])))"

definition LoadBalance_toBalance ::
  "server \<Rightarrow> LoadBalanceRequest \<Rightarrow> UniqueID \<Rightarrow> error + Segment list" where
  "LoadBalance_toBalance s req srcNode =
     (let segments = SegmentDistManager_GetByFilter s
                       [WithCollectionID (lbq_CollectionID req), WithNodeID srcNode];
          segmentsMap = SliceToMap segments (\<lambda>sg. (seg_ID sg, sg))
      in if length (lbq_SealedSegmentIDs req) = 0
         then Inr (Set_Insert [] segments)
         else LoadBalance_sealed s segmentsMap (lbq_SealedSegmentIDs req) [])"

text \<open>
  The request verification of \<^verbatim>\<open>LoadBalance\<close>, from the count of source nodes to the
  health of the destinations: the replica, the source node and the destination set, or
  the error that rejects the request. \<^verbatim>\<open>req.GetSourceNodeIDs()[0]\<close> is read only when
  the list has one element.
\<close>

definition LoadBalance_verify ::
  "server \<Rightarrow> LoadBalanceRequest \<Rightarrow> error + (Replica \<times> UniqueID \<times> UniqueID list)" where
  "LoadBalance_verify s req =
     (if length (lbq_SourceNodeIDs req) \<noteq> 1
      then Inl (ErrParameterInvalid (Lit ''only 1 source node'')
                  (Sprintf ''%d source nodes'' [ArgInt (int (length (lbq_SourceNodeIDs req)))]) [])
      else if meta_CalculateLoadPercentage s (lbq_CollectionID req) < 100
      then Inl (ErrCollectionNotFullyLoaded (lbq_CollectionID req))
      else
        (let srcNode = hd (lbq_SourceNodeIDs req)
         in (case meta_GetByCollectionAndNode s (lbq_CollectionID req) srcNode of
               None \<Rightarrow>
                 Inl (ErrNodeNotFound srcNode
                        [Sprintf ''source node not found in any replica of collection %d''
                           [ArgInt (lbq_CollectionID req)]])
             | Some replica \<Rightarrow>
                 (case isStoppingNode s srcNode of
                    Some err \<Rightarrow>
                      Inl (Wrap err (Sprintf
                        ''can't balance, because the source node[%d] is invalid'' [ArgInt srcNode]))
                  | None \<Rightarrow>
                      (case LoadBalance_dstNodeSet replica req of
                         Inl err \<Rightarrow> Inl err
                       | Inr dstNodeSet \<Rightarrow>
                           (case LoadBalance_checkDst s dstNodeSet of
                              Some err \<Rightarrow> Inl err
                            | None \<Rightarrow> Inr (replica, srcNode, dstNodeSet)))))))"

definition LoadBalance :: "server \<Rightarrow> LoadBalanceRequest \<Rightarrow> Status outcome \<times> server" where
  "LoadBalance s req =
     (case CheckHealthy (State s) of
        Some err \<Rightarrow>
          (Return (merr_Status (errors_Wrap (Some err) (Lit ''failed to load balance''))) None, s)
      | None \<Rightarrow>
          (case LoadBalance_verify s req of
             Inl err \<Rightarrow> (Return (merr_Status (Some err)) None, s)
           | Inr (replica, srcNode, dstNodeSet) \<Rightarrow>
               (case LoadBalance_toBalance s req srcNode of
                  Inl err \<Rightarrow> (Return (merr_Status (Some err)) None, s)
                | Inr toBalance \<Rightarrow>
                    (let s1 = s\<lparr>calls := calls s @
                                [Call_balanceSegments (rep_CollectionID replica) replica srcNode
                                   dstNodeSet toBalance True False]\<rparr>
                     in (case balanceSegments s (rep_CollectionID replica) replica srcNode
                               dstNodeSet toBalance True False of
                           Some err \<Rightarrow>
                             (Return (merr_Status (errors_Wrap (Some err)
                                (Lit ''failed to balance segments''))) None, s1)
                         | None \<Rightarrow> (Return Success None, s1))))))"

section \<open>Shard leader resolution\<close>

text \<open>
  \<^verbatim>\<open>readableLeaders\<close> is a Go map from the leader's node ID to its view, modelled as an
  association list with one entry per key, iterated in the order of first insertion.
\<close>

fun GetShardLeaders_readable ::
  "server \<Rightarrow> UniqueID list \<Rightarrow> LeaderView list \<Rightarrow> (UniqueID \<times> LeaderView) list \<Rightarrow> error option
     \<Rightarrow> (UniqueID \<times> LeaderView) list \<times> error option" where
  "GetShardLeaders_readable s currentTargets [] readableLeaders channelErr =
     (readableLeaders, channelErr)"
| "GetShardLeaders_readable s currentTargets (leader # leaders) readableLeaders channelErr =
     (case checkers_CheckLeaderAvailable s leader currentTargets of
        Some err \<Rightarrow>
          GetShardLeaders_readable s currentTargets leaders readableLeaders
            (multierr_AppendInto channelErr err)
      | None \<Rightarrow>
          GetShardLeaders_readable s currentTargets leaders
            (AList.update (lv_ID leader) leader readableLeaders) channelErr)"

fun GetShardLeaders_addrs ::
  "server \<Rightarrow> (UniqueID \<times> LeaderView) list \<Rightarrow> UniqueID list \<times> string list" where
  "GetShardLeaders_addrs s [] = ([], [])"
| "GetShardLeaders_addrs s (kv # rest) =
     (let (ids, addrs) = GetShardLeaders_addrs s rest
      in (case nodeMgr_Get s (lv_ID (snd kv)) of
            None \<Rightarrow> (ids, addrs)
          | Some info \<Rightarrow> (ni_ID info # ids, ni_Addr info # addrs)))"

text \<open>
  The response when a channel has no usable leader. \<^verbatim>\<open>channelErr.Error()\<close> is evaluated
  to build the status, which panics when \<^verbatim>\<open>channelErr\<close> is nil.
\<close>

definition GetShardLeaders_notAvailable ::
  "GetShardLeadersResponse \<Rightarrow> string \<Rightarrow> error option \<Rightarrow> GetShardLeadersResponse outcome" where
  "GetShardLeaders_notAvailable resp channel channelErr =
     (case channelErr of
        None \<Rightarrow> Panic
      | Some ce \<Rightarrow>
          Return (resp\<lparr>glr_Status := merr_Status
                          (errors_Wrap (Some (ErrChannelNotAvailable channel)) (ErrorText ce)),
                        glr_Shards := []\<rparr>) None)"

fun GetShardLeaders_channels ::
  "server \<Rightarrow> UniqueID list \<Rightarrow> string list \<Rightarrow> GetShardLeadersResponse
     \<Rightarrow> GetShardLeadersResponse outcome" where
  "GetShardLeaders_channels s currentTargets [] resp = Return resp None"
| "GetShardLeaders_channels s currentTargets (channel # channels) resp =
     (let leaders = LeaderViewManager_GetByFilter s (WithChannelName2LeaderView channel);
          channelErr0 = (if length leaders = 0
                         then Some (ErrChannelLack channel [''channel not subscribed''])
                         else None);
          rl = GetShardLeaders_readable s currentTargets leaders [] channelErr0;
          readableLeaders = fst rl;
          channelErr = snd rl
      in if length readableLeaders = 0
         then GetShardLeaders_notAvailable resp channel channelErr
         else
           (let ia = GetShardLeaders_addrs s (filterDupLeaders s readableLeaders);
                ids = fst ia;
                addrs = snd ia
            in if length ids = 0
               then GetShardLeaders_notAvailable resp channel channelErr
               else GetShardLeaders_channels s currentTargets channels
                      (resp\<lparr>glr_Shards := glr_Shards resp @
                         [\<lparr>sll_ChannelName = channel, sll_NodeIds = ids, sll_NodeAddrs = addrs\<rparr>]\<rparr>)))"

definition GetShardLeaders ::
  "server \<Rightarrow> GetShardLeadersRequest \<Rightarrow> GetShardLeadersResponse outcome" where
  "GetShardLeaders s req =
     (case CheckHealthy (State s) of
        Some err \<Rightarrow>
          Return \<lparr>glr_Status = merr_Status (errors_Wrap (Some err) (Lit ''failed to get shard leaders'')),
                  glr_Shards = []\<rparr> None
      | None \<Rightarrow>
          (let resp = \<lparr>glr_Status = Success, glr_Shards = []\<rparr>;
               percentage = meta_CalculateLoadPercentage s (glq_CollectionID req)
           in if percentage < 0
              then Return (resp\<lparr>glr_Status :=
                     merr_Status (Some (ErrCollectionNotLoaded (glq_CollectionID req) []))\<rparr>) None
              else
                (let percentage1 =
                       (case meta_GetCollection s (glq_CollectionID req) of
                          Some collection \<Rightarrow>
                            if col_Status collection = LoadStatus_Loaded then 100 else percentage
                        | None \<Rightarrow> percentage)
                 in if percentage1 < 100
                    then Return (resp\<lparr>glr_Status :=
                           merr_Status (Some (ErrCollectionNotFullyLoaded (glq_CollectionID req)))\<rparr>) None
                    else
                      (let channels = targetMgr_GetDmChannelsByCollection s
                                        (glq_CollectionID req) CurrentTarget
                       in if length channels = 0
                          then Return (resp\<lparr>glr_Status := merr_Status (Some
                                 (ErrCollectionOnRecovering (glq_CollectionID req)
                                    [''loaded collection do not found any channel in target, may be in recovery'']))\<rparr>)
                                 None
                          else GetShardLeaders_channels s
                                 (targetMgr_GetSealedSegmentsByCollection s
                                    (glq_CollectionID req) CurrentTarget)
                                 channels resp))))"


section \<open>Resource groups and replica transfer\<close>

definition CreateResourceGroup :: "server \<Rightarrow> CreateResourceGroupRequest \<Rightarrow> Status outcome \<times> server" where
  "CreateResourceGroup s req =
     (case CheckHealthy (State s) of
        Some err \<Rightarrow> (Return (merr_Status (Some err)) None, s)
      | None \<Rightarrow>
          (let s1 = s\<lparr>calls := calls s @
                      [Call_AddResourceGroup (crq_ResourceGroup req) (crq_Config req)]\<rparr>
           in (case ResourceManager_AddResourceGroup s (crq_ResourceGroup req) (crq_Config req) of
                 Some err \<Rightarrow> (Return (merr_Status (Some err)) None, s1)
               | None \<Rightarrow> (Return Success None, s1))))"

definition UpdateResourceGroups :: "server \<Rightarrow> UpdateResourceGroupsRequest \<Rightarrow> Status outcome \<times> server" where
  "UpdateResourceGroups s req =
     (case CheckHealthy (State s) of
        Some err \<Rightarrow> (Return (merr_Status (Some err)) None, s)
      | None \<Rightarrow>
          (let s1 = s\<lparr>calls := calls s @ [Call_UpdateResourceGroups (urq_ResourceGroups req)]\<rparr>
           in (case ResourceManager_UpdateResourceGroups s (urq_ResourceGroups req) of
                 Some err \<Rightarrow> (Return (merr_Status (Some err)) None, s1)
               | None \<Rightarrow> (Return Success None, s1))))"

definition DropResourceGroup :: "server \<Rightarrow> DropResourceGroupRequest \<Rightarrow> Status outcome \<times> server" where
  "DropResourceGroup s req =
     (case CheckHealthy (State s) of
        Some err \<Rightarrow> (Return (merr_Status (Some err)) None, s)
      | None \<Rightarrow>
          (case meta_GetByResourceGroup s (drq_ResourceGroup req) of
             replica # replicas \<Rightarrow>
               (Return (merr_Status (errors_Wrap
                  (Some (ErrParameterInvalid (Lit ''empty resource group'')
                           (Sprintf ''resource group %s has collection %d loaded''
                              [ArgStr (drq_ResourceGroup req), ArgInt (rep_CollectionID replica)]) []))
                  (Sprintf ''some replicas still loaded in resource group[%s], release it first''
                     [ArgStr (drq_ResourceGroup req)]))) None, s)
           | [] \<Rightarrow>
               (let s1 = s\<lparr>calls := calls s @ [Call_RemoveResourceGroup (drq_ResourceGroup req)]\<rparr>
                in (case ResourceManager_RemoveResourceGroup s (drq_ResourceGroup req) of
                      Some err \<Rightarrow> (Return (merr_Status (Some err)) None, s1)
                    | None \<Rightarrow> (Return Success None, s1)))))"

definition TransferNode :: "server \<Rightarrow> TransferNodeRequest \<Rightarrow> Status outcome \<times> server" where
  "TransferNode s req =
     (case CheckHealthy (State s) of
        Some err \<Rightarrow> (Return (merr_Status (Some err)) None, s)
      | None \<Rightarrow>
          (let s1 = s\<lparr>calls := calls s @
                      [Call_TransferNode (tnq_SourceResourceGroup req) (tnq_TargetResourceGroup req)
                         (tnq_NumNode req)]\<rparr>
           in (case ResourceManager_TransferNode s (tnq_SourceResourceGroup req)
                     (tnq_TargetResourceGroup req) (tnq_NumNode req) of
                 Some err \<Rightarrow> (Return (merr_Status (Some err)) None, s1)
               | None \<Rightarrow>
                   (Return Success None, s1\<lparr>calls := calls s1 @ [Call_RecoverAllCollection]\<rparr>))))"

definition TransferReplica :: "server \<Rightarrow> TransferReplicaRequest \<Rightarrow> Status outcome \<times> server" where
  "TransferReplica s req =
     (case CheckHealthy (State s) of
        Some err \<Rightarrow> (Return (merr_Status (Some err)) None, s)
      | None \<Rightarrow>
          if \<not> ResourceManager_ContainResourceGroup s (trq_SourceResourceGroup req)
          then (Return (merr_Status (errors_Wrap
                  (Some (ErrResourceGroupNotFound (trq_SourceResourceGroup req)))
                  (Sprintf ''the source resource group[%s] doesn't exist''
                     [ArgStr (trq_SourceResourceGroup req)]))) None, s)
          else if \<not> ResourceManager_ContainResourceGroup s (trq_TargetResourceGroup req)
          then (Return (merr_Status (errors_Wrap
                  (Some (ErrResourceGroupNotFound (trq_TargetResourceGroup req)))
                  (Sprintf ''the target resource group[%s] doesn't exist''
                     [ArgStr (trq_TargetResourceGroup req)]))) None, s)
          else
            (let err = meta_TransferReplica s (trq_CollectionID req) (trq_SourceResourceGroup req)
                         (trq_TargetResourceGroup req) (trq_NumReplica req)
             in (Return (merr_Status err) None,
                 s\<lparr>calls := calls s @
                     [Call_TransferReplica (trq_CollectionID req) (trq_SourceResourceGroup req)
                        (trq_TargetResourceGroup req) (trq_NumReplica req)]\<rparr>)))"

definition ListResourceGroups :: "server \<Rightarrow> ListResourceGroupsResponse outcome" where
  "ListResourceGroups s =
     (let resp = \<lparr>lrr_Status = Success, lrr_ResourceGroups = []\<rparr>
      in (case CheckHealthy (State s) of
            Some err \<Rightarrow> Return (resp\<lparr>lrr_Status := merr_Status (Some err)\<rparr>) None
          | None \<Rightarrow>
              Return (resp\<lparr>lrr_ResourceGroups := ResourceManager_ListResourceGroups s\<rparr>) None))"

text \<open>The three counting loops and the node loop of \<^verbatim>\<open>DescribeResourceGroup\<close>.\<close>

definition Describe_outgoing ::
  "server \<Rightarrow> Replica list \<Rightarrow> (UniqueID \<rightharpoonup> 32 word) \<times> (UniqueID \<rightharpoonup> 32 word)" where
  "Describe_outgoing s replicasInRG =
     foldl (\<lambda>(loadedReplicas, outgoingNodes) replica.
              (incr loadedReplicas (rep_CollectionID replica),
               foldl (\<lambda>out node.
                        if \<not> ResourceManager_ContainsNode s (rep_ResourceGroup replica) node
                        then incr out (rep_CollectionID replica) else out)
                     outgoingNodes (rep_Nodes replica)))
           (Map.empty, Map.empty) replicasInRG"

definition Describe_incoming :: "server \<Rightarrow> string \<Rightarrow> (UniqueID \<rightharpoonup> 32 word)" where
  "Describe_incoming s rgName =
     foldl (\<lambda>incomingNodes collection.
              foldl (\<lambda>inc replica.
                       if rep_ResourceGroup replica = rgName then inc
                       else foldl (\<lambda>inc1 node.
                                     if ResourceManager_ContainsNode s rgName node
                                     then incr inc1 collection else inc1)
                                  inc (rep_Nodes replica))
                    incomingNodes (meta_GetByCollection s collection))
           Map.empty (meta_GetAll s)"

fun Describe_nodes :: "server \<Rightarrow> UniqueID list \<Rightarrow> CommonNodeInfo list" where
  "Describe_nodes s [] = []"
| "Describe_nodes s (nodeID # rest) =
     (case nodeMgr_Get s nodeID of
        None \<Rightarrow> Describe_nodes s rest
      | Some nodeSessionInfo \<Rightarrow>
          if \<not> ni_IsStoppingState nodeSessionInfo
          then \<lparr>cni_NodeId = ni_ID nodeSessionInfo, cni_Address = ni_Addr nodeSessionInfo,
                cni_Hostname = ni_Hostname nodeSessionInfo\<rparr> # Describe_nodes s rest
          else Describe_nodes s rest)"

definition DescribeResourceGroup ::
  "server \<Rightarrow> DescribeResourceGroupRequest \<Rightarrow> DescribeResourceGroupResponse outcome" where
  "DescribeResourceGroup s req =
     (let resp = \<lparr>dgr_Status = Success, dgr_ResourceGroup = None\<rparr>
      in (case CheckHealthy (State s) of
            Some err \<Rightarrow> Return (resp\<lparr>dgr_Status := merr_Status (Some err)\<rparr>) None
          | None \<Rightarrow>
              (case ResourceManager_GetResourceGroup s (dgq_ResourceGroup req) of
                 None \<Rightarrow>
                   Return (resp\<lparr>dgr_Status := merr_Status
                             (Some (ErrResourceGroupNotFound (dgq_ResourceGroup req)))\<rparr>) None
               | Some rg \<Rightarrow>
                   (let lo = Describe_outgoing s (meta_GetByResourceGroup s (dgq_ResourceGroup req));
                        nodes = Describe_nodes s (rg_Nodes rg)
                    in Return (resp\<lparr>dgr_ResourceGroup := Some
                         \<lparr>rgi_Name = dgq_ResourceGroup req,
                          rgi_Capacity = word_of_int (rg_Capacity rg),
                          rgi_NumAvailableNode = word_of_nat (length nodes),
                          rgi_NumLoadedReplica = fst lo,
                          rgi_NumOutgoingNode = snd lo,
                          rgi_NumIncomingNode = Describe_incoming s (dgq_ResourceGroup req),
                          rgi_Config = rg_Config rg,
                          rgi_Nodes = nodes\<rparr>\<rparr>) None))))"

section \<open>The read paths\<close>

fun ShowCollections_loop ::
  "server \<Rightarrow> bool \<Rightarrow> UniqueID list \<Rightarrow> ShowCollectionsResponse \<Rightarrow> ShowCollectionsResponse outcome" where
  "ShowCollections_loop s isGetAll [] resp = Return resp None"
| "ShowCollections_loop s isGetAll (collectionID # rest) resp =
     (let percentage = meta_CalculateLoadPercentage s collectionID
      in if percentage < 0
         then (if isGetAll then ShowCollections_loop s isGetAll rest resp
               else (case GlobalFailedLoadCache_Get s collectionID of
                       Some err \<Rightarrow>
                         Return \<lparr>scr_Status = merr_Status (errors_Wrap (Some err)
                                                (Lit ''show collection failed'')),
                                 scr_CollectionIDs = [], scr_InMemoryPercentages = [],
                                 scr_QueryServiceAvailable = [], scr_RefreshProgress = []\<rparr> None
                     | None \<Rightarrow>
                         Return \<lparr>scr_Status = merr_Status
                                                (Some (ErrCollectionNotLoaded collectionID [])),
                                 scr_CollectionIDs = [], scr_InMemoryPercentages = [],
                                 scr_QueryServiceAvailable = [], scr_RefreshProgress = []\<rparr> None))
         else (case meta_GetCollection s collectionID of
                 None \<Rightarrow> Panic
               | Some collection \<Rightarrow>
                   ShowCollections_loop s isGetAll rest
                     (resp\<lparr>scr_CollectionIDs := scr_CollectionIDs resp @ [collectionID],
                            scr_InMemoryPercentages := scr_InMemoryPercentages resp @ [percentage],
                            scr_QueryServiceAvailable := scr_QueryServiceAvailable resp @
                               [checkAnyReplicaAvailable s collectionID],
                            scr_RefreshProgress := scr_RefreshProgress resp @
                               [if Collection_IsRefreshed s collection then 100 else 0]\<rparr>)))"

definition ShowCollections ::
  "server \<Rightarrow> ShowCollectionsRequest \<Rightarrow> ShowCollectionsResponse outcome \<times> server" where
  "ShowCollections s req =
     (case CheckHealthy (State s) of
        Some err \<Rightarrow>
          (Return \<lparr>scr_Status = merr_Status (errors_Wrap (Some err)
                                  (Lit ''failed to show collections'')),
                   scr_CollectionIDs = [], scr_InMemoryPercentages = [],
                   scr_QueryServiceAvailable = [], scr_RefreshProgress = []\<rparr> None, s)
      | None \<Rightarrow>
          (let isGetAll = (length (scq_CollectionIDs req) = 0);
               collectionSet =
                 (if isGetAll
                  then Set_Insert (NewUniqueSet (scq_CollectionIDs req))
                         (map col_CollectionID (meta_GetAllCollections s))
                  else NewUniqueSet (scq_CollectionIDs req))
           in (ShowCollections_loop s isGetAll collectionSet
                 \<lparr>scr_Status = Success, scr_CollectionIDs = [], scr_InMemoryPercentages = [],
                  scr_QueryServiceAvailable = [], scr_RefreshProgress = []\<rparr>,
               s\<lparr>calls := calls s @ [FailedLoadCache_TryExpire]\<rparr>)))"

fun ShowPartitions_loop ::
  "server \<Rightarrow> UniqueID \<Rightarrow> UniqueID list \<Rightarrow> int list \<Rightarrow> Status + int list" where
  "ShowPartitions_loop s collectionID [] percentages = Inr percentages"
| "ShowPartitions_loop s collectionID (partitionID # rest) percentages =
     (let percentage = meta_GetPartitionLoadPercentage s partitionID
      in if percentage < 0
         then (case GlobalFailedLoadCache_Get s collectionID of
                 Some err \<Rightarrow> Inl (merr_Status (Some err))
               | None \<Rightarrow> Inl (merr_Status (Some (ErrPartitionNotLoaded [partitionID]))))
         else ShowPartitions_loop s collectionID rest (percentages @ [percentage]))"

definition ShowPartitions ::
  "server \<Rightarrow> ShowPartitionsRequest \<Rightarrow> ShowPartitionsResponse outcome \<times> server" where
  "ShowPartitions s req =
     (case CheckHealthy (State s) of
        Some err \<Rightarrow>
          (Return \<lparr>spr_Status = merr_Status (errors_Wrap (Some err)
                                  (Lit ''failed to show partitions'')),
                   spr_PartitionIDs = [], spr_InMemoryPercentages = [],
                   spr_RefreshProgress = []\<rparr> None, s)
      | None \<Rightarrow>
          (let partitions =
                 (if length (spq_PartitionIDs req) = 0
                  then map part_PartitionID (meta_GetPartitionsByCollection s (spq_CollectionID req))
                  else spq_PartitionIDs req);
               s1 = s\<lparr>calls := calls s @ [FailedLoadCache_TryExpire]\<rparr>
           in (case ShowPartitions_loop s (spq_CollectionID req) partitions [] of
                 Inl status \<Rightarrow>
                   (Return \<lparr>spr_Status = status, spr_PartitionIDs = [],
                            spr_InMemoryPercentages = [], spr_RefreshProgress = []\<rparr> None, s1)
               | Inr percentages \<Rightarrow>
                   (let refreshProgress =
                          (case meta_GetCollection s (spq_CollectionID req) of
                             Some collection \<Rightarrow>
                               if Collection_IsRefreshed s collection then 100 else 0
                           | None \<Rightarrow> 0)
                    in (Return \<lparr>spr_Status = Success, spr_PartitionIDs = partitions,
                                 spr_InMemoryPercentages = percentages,
                                 spr_RefreshProgress =
                                   replicate (length partitions) refreshProgress\<rparr> None, s1)))))"

fun GetPartitionStates_released ::
  "UniqueID list \<Rightarrow> PartitionState \<Rightarrow> UniqueID list \<Rightarrow> PartitionStates list
     \<Rightarrow> PartitionStates list option" where
  "GetPartitionStates_released releasedPartitions state [] states = Some states"
| "GetPartitionStates_released releasedPartitions state (partitionID # rest) states =
     (if partitionID \<in> set releasedPartitions then None
      else GetPartitionStates_released releasedPartitions state rest
             (states @ [\<lparr>ps_PartitionID = partitionID, ps_State = state\<rparr>]))"

fun GetPartitionStates_partitions ::
  "server \<Rightarrow> UniqueID list \<Rightarrow> PartitionStates list \<Rightarrow> PartitionStates list option" where
  "GetPartitionStates_partitions s [] states = Some states"
| "GetPartitionStates_partitions s (partitionID # rest) states =
     (case meta_GetPartition s partitionID of
        None \<Rightarrow> None
      | Some part \<Rightarrow>
          GetPartitionStates_partitions s rest
            (states @ [\<lparr>ps_PartitionID = partitionID,
                        ps_State = (if part_LoadPercentage part \<ge> 100
                                    then PartitionState_InMemory
                                    else PartitionState_PartialInMemory)\<rparr>]))"

definition GetPartitionStates ::
  "server \<Rightarrow> GetPartitionStatesRequest \<Rightarrow> GetPartitionStatesResponse outcome" where
  "GetPartitionStates s req =
     (case CheckHealthy (State s) of
        Some err \<Rightarrow>
          Return \<lparr>gpr_Status = merr_Status (errors_Wrap (Some err)
                                 (Lit ''failed to get partition states'')),
                  gpr_PartitionDescriptions = []\<rparr> None
      | None \<Rightarrow>
          (let notLoadResp =
                 \<lparr>gpr_Status = merr_Status (Some (ErrPartitionNotLoaded (gpq_PartitionIDs req))),
                  gpr_PartitionDescriptions = []\<rparr>
           in (case meta_GetLoadType s (gpq_CollectionID req) of
                 LoadType_LoadCollection \<Rightarrow>
                   (case meta_GetCollection s (gpq_CollectionID req) of
                      None \<Rightarrow> Panic
                    | Some collection \<Rightarrow>
                        (case GetPartitionStates_released (col_ReleasedPartitions collection)
                                (if col_LoadPercentage collection \<ge> 100
                                 then PartitionState_InMemory
                                 else PartitionState_PartialInMemory)
                                (gpq_PartitionIDs req) [] of
                           None \<Rightarrow> Return notLoadResp None
                         | Some states \<Rightarrow>
                             Return \<lparr>gpr_Status = Success,
                                     gpr_PartitionDescriptions = states\<rparr> None))
               | LoadType_LoadPartition \<Rightarrow>
                   (case GetPartitionStates_partitions s (gpq_PartitionIDs req) [] of
                      None \<Rightarrow> Return notLoadResp None
                    | Some states \<Rightarrow>
                        Return \<lparr>gpr_Status = Success, gpr_PartitionDescriptions = states\<rparr> None)
               | LoadType_UnKnownType \<Rightarrow> Return notLoadResp None)))"

fun GetSegmentInfo_loop :: "server \<Rightarrow> UniqueID list \<Rightarrow> SegmentInfo list \<Rightarrow> Status + SegmentInfo list" where
  "GetSegmentInfo_loop s [] infos = Inr infos"
| "GetSegmentInfo_loop s (segmentID # rest) infos =
     (let segments = SegmentDistManager_GetByFilter s [WithSegmentID segmentID]
      in if length segments = 0
         then Inl (merr_Status (errors_Wrap (Some (ErrSegmentNotLoaded segmentID))
                     (Sprintf ''segment %v not found in any node'' [ArgInt segmentID])))
         else GetSegmentInfo_loop s rest
                (infos @ [utils_MergeMetaSegmentIntoSegmentInfo s segments]))"

definition GetSegmentInfo :: "server \<Rightarrow> GetSegmentInfoRequest \<Rightarrow> GetSegmentInfoResponse outcome" where
  "GetSegmentInfo s req =
     (case CheckHealthy (State s) of
        Some err \<Rightarrow>
          Return \<lparr>gsr_Status = merr_Status (errors_Wrap (Some err)
                                 (Lit ''failed to get segment info'')),
                  gsr_Infos = []\<rparr> None
      | None \<Rightarrow>
          if length (gsq_SegmentIDs req) = 0
          then Return \<lparr>gsr_Status = Success,
                       gsr_Infos = getCollectionSegmentInfo s (gsq_CollectionID req)\<rparr> None
          else (case GetSegmentInfo_loop s (gsq_SegmentIDs req) [] of
                  Inl status \<Rightarrow> Return \<lparr>gsr_Status = status, gsr_Infos = []\<rparr> None
                | Inr infos \<Rightarrow> Return \<lparr>gsr_Status = Success, gsr_Infos = infos\<rparr> None))"

definition ShowConfigurations ::
  "server \<Rightarrow> ShowConfigurationsRequest \<Rightarrow> ShowConfigurationsResponse outcome" where
  "ShowConfigurations s req =
     (case CheckHealthy (State s) of
        Some err \<Rightarrow>
          Return \<lparr>cfr_Status = merr_Status (errors_Wrap (Some err)
                                 (Lit ''failed to show configurations'')),
                  cfr_Configuations = []\<rparr> None
      | None \<Rightarrow>
          Return \<lparr>cfr_Status = Success,
                  cfr_Configuations =
                    Params_GetComponentConfigurations s ''querycoord'' (cfq_Pattern req)\<rparr> None)"

definition GetMetrics :: "server \<Rightarrow> GetMetricsRequest \<Rightarrow> GetMetricsResponse outcome" where
  "GetMetrics s req =
     (case CheckHealthyStandby (State s) of
        Some err \<Rightarrow>
          Return \<lparr>gmr_Status = merr_Status (errors_Wrap (Some err) (Lit ''failed to get metrics'')),
                  gmr_Response = [], gmr_ComponentName = []\<rparr> None
      | None \<Rightarrow>
          (let resp = \<lparr>gmr_Status = Success, gmr_Response = [],
                       gmr_ComponentName = metricsinfo_ConstructComponentName s\<rparr>
           in (case metricsinfo_ParseMetricType s (gmq_Request req) of
                 Inl err \<Rightarrow>
                   Return (resp\<lparr>gmr_Status := merr_Status (errors_Wrap (Some err)
                                   (Lit ''failed to parse metric type''))\<rparr>) None
               | Inr metricType \<Rightarrow>
                   if metricType \<noteq> metricsinfo_SystemInfoMetrics s
                   then Return (resp\<lparr>gmr_Status := merr_Status (errors_Wrap
                                  (Some (ErrorsNew (Lit (metricsinfo_MsgUnimplementedMetric s))))
                                  (Lit ''invalid metric type''))\<rparr>) None
                   else
                     (let r = getSystemInfoMetrics s req;
                          resp1 = resp\<lparr>gmr_Response := fst r\<rparr>
                      in (case snd r of
                            Some err \<Rightarrow>
                              Return (resp1\<lparr>gmr_Status := merr_Status (errors_Wrap (Some err)
                                        (Lit ''failed to get system info metrics''))\<rparr>) None
                          | None \<Rightarrow> Return resp1 None)))))"

definition GetReplicas :: "server \<Rightarrow> GetReplicasRequest \<Rightarrow> GetReplicasResponse outcome" where
  "GetReplicas s req =
     (case CheckHealthy (State s) of
        Some err \<Rightarrow>
          Return \<lparr>grr_Status = Some (merr_Status (errors_Wrap (Some err)
                                       (Lit ''failed to get replicas''))),
                  grr_Replicas = []\<rparr> None
      | None \<Rightarrow>
          (let replicas = meta_GetByCollection s (grq_CollectionID req)
           in if length replicas = 0
              then Return \<lparr>grr_Status = None, grr_Replicas = []\<rparr> None
              else Return \<lparr>grr_Status = Some Success,
                           grr_Replicas =
                             map (\<lambda>replica. fillReplicaInfo s replica (grq_WithShardNodes req))
                                 replicas\<rparr> None))"


section \<open>Example servers\<close>

text \<open>
  A healthy coordinator with nothing loaded, no nodes and one resource group, the default
  one. The examples below change the fields that matter to them.
\<close>

definition healthyStates :: ComponentStates where
  "healthyStates = \<lparr>cs_Status = Success, cs_StateCode = StateCode_Healthy\<rparr>"

definition abnormalStates :: ComponentStates where
  "abnormalStates = \<lparr>cs_Status = Success, cs_StateCode = StateCode_Abnormal\<rparr>"

definition srv0 :: server where
  "srv0 =
     \<lparr>State = StateCode_Healthy,
      meta_GetCollection = (\<lambda>c. None),
      meta_GetAllCollections = [],
      meta_GetAll = [],
      meta_CalculateLoadPercentage = (\<lambda>c. - 1),
      meta_GetPartitionsByCollection = (\<lambda>c. []),
      meta_GetPartitionLoadPercentage = (\<lambda>p. - 1),
      meta_GetPartition = (\<lambda>p. None),
      meta_GetLoadType = (\<lambda>c. LoadType_UnKnownType),
      Collection_IsRefreshed = (\<lambda>c. False),
      GlobalFailedLoadCache_Get = (\<lambda>c. None),
      meta_DefaultResourceGroupName = ''__default_resource_group'',
      meta_GetByCollectionAndNode = (\<lambda>c n. None),
      meta_GetByCollection = (\<lambda>c. []),
      meta_GetByResourceGroup = (\<lambda>rg. []),
      meta_GetResourceGroupByCollection = (\<lambda>c. []),
      meta_TransferReplica = (\<lambda>c src dst n. None),
      ResourceManager_ContainResourceGroup = (\<lambda>rg. rg = ''__default_resource_group''),
      ResourceManager_GetResourceGroup = (\<lambda>rg. None),
      ResourceManager_ListResourceGroups = [''__default_resource_group''],
      ResourceManager_ContainsNode = (\<lambda>rg n. False),
      ResourceManager_AddResourceGroup = (\<lambda>rg cfg. None),
      ResourceManager_UpdateResourceGroups = (\<lambda>rgs. None),
      ResourceManager_RemoveResourceGroup = (\<lambda>rg. None),
      ResourceManager_TransferNode = (\<lambda>src dst n. None),
      nodeMgr_Get = (\<lambda>n. None),
      nodeMgr_GetAll = [],
      nodeMgr_IsStoppingNode = (\<lambda>n. Inl (ErrNodeNotFound n [])),
      SegmentDistManager_GetByFilter = (\<lambda>fs. []),
      LeaderViewManager_GetByFilter = (\<lambda>f. []),
      targetMgr_GetSealedSegment = (\<lambda>c sg scope. None),
      targetMgr_GetDmChannelsByCollection = (\<lambda>c scope. []),
      targetMgr_GetSealedSegmentsByCollection = (\<lambda>c scope. []),
      targetObserver_UpdateNextTarget = (\<lambda>c. Inr 0),
      cluster_GetComponentStates = (\<lambda>n. Inr healthyStates),
      merr_AnalyzeState = (\<lambda>role n st.
         if cs_StateCode st = StateCode_Healthy then None
         else Some (ErrServiceNotReady (cs_StateCode st))),
      checkers_CheckLeaderAvailable = (\<lambda>leader targets. None),
      filterDupLeaders = (\<lambda>leaders. leaders),
      checkAnyReplicaAvailable = (\<lambda>c. False),
      getCollectionSegmentInfo = (\<lambda>c. []),
      utils_MergeMetaSegmentIntoSegmentInfo = (\<lambda>segs.
         \<lparr>si_SegmentID = 0, si_CollectionID = 0, si_NodeIds = map seg_Node segs\<rparr>),
      fillReplicaInfo = (\<lambda>r w.
         \<lparr>ri_ReplicaID = rep_ID r, ri_CollectionID = rep_CollectionID r,
          ri_NodeIds = rep_Nodes r, ri_ResourceGroupName = rep_ResourceGroup r\<rparr>),
      balanceSegments = (\<lambda>c r src dst segs copyMode sync. None),
      Params_GetComponentConfigurations = (\<lambda>component pat. []),
      metricsinfo_ConstructComponentName = ''querycoord'',
      metricsinfo_ParseMetricType = (\<lambda>r. Inr r),
      metricsinfo_SystemInfoMetrics = ''system_info'',
      metricsinfo_MsgUnimplementedMetric = ''not implemented'',
      getSystemInfoMetrics = (\<lambda>r. ([], None)),
      job_Wait = (\<lambda>j. None),
      jobScheduler = [],
      calls = []\<rparr>"

definition node :: "UniqueID \<Rightarrow> NodeInfo" where
  "node n = \<lparr>ni_ID = n, ni_Addr = ''addr'', ni_Hostname = ''host'', ni_IsStoppingState = False\<rparr>"

text \<open>
  Three nodes. In \<open>srv_probe_fault\<close> the probe of node 2 fails in transport and node 3
  answers an abnormal state; in \<open>srv_probe_unhealthy\<close> node 2 answers healthy and node 3
  answers the same abnormal state.
\<close>

definition srv_probe_fault :: server where
  "srv_probe_fault = srv0
     \<lparr>nodeMgr_GetAll := [node 1, node 2, node 3],
      cluster_GetComponentStates := (\<lambda>n.
         if n = 2 then Inl (ErrExternal ''connection refused'')
         else if n = 3 then Inr abnormalStates else Inr healthyStates)\<rparr>"

definition srv_probe_unhealthy :: server where
  "srv_probe_unhealthy = srv0
     \<lparr>nodeMgr_GetAll := [node 1, node 2, node 3],
      cluster_GetComponentStates := (\<lambda>n.
         if n = 3 then Inr abnormalStates else Inr healthyStates)\<rparr>"

text \<open>
  Collection 100 whose status is Loaded while its percentage is 50 (a new partition is
  still loading), with replicas in resource group rgB only; and the same collection
  when its status is still Loading.
\<close>

definition coll_loaded_50 :: Collection where
  "coll_loaded_50 = \<lparr>col_CollectionID = 100, col_Status = LoadStatus_Loaded,
     col_LoadPercentage = 50, col_ReleasedPartitions = [], col_refreshNotifier = None\<rparr>"

definition srv_loaded_50 :: server where
  "srv_loaded_50 = srv0
     \<lparr>meta_GetCollection := (\<lambda>c. if c = 100 then Some coll_loaded_50 else None),
      meta_CalculateLoadPercentage := (\<lambda>c. if c = 100 then 50 else - 1),
      meta_GetResourceGroupByCollection := (\<lambda>c. if c = 100 then [''rgB''] else []),
      targetObserver_UpdateNextTarget := (\<lambda>c. Inr 7)\<rparr>"

definition coll_loading_50 :: Collection where
  "coll_loading_50 = \<lparr>col_CollectionID = 100, col_Status = LoadStatus_Loading,
     col_LoadPercentage = 50, col_ReleasedPartitions = [], col_refreshNotifier = None\<rparr>"

definition srv_loading_50 :: server where
  "srv_loading_50 = srv0
     \<lparr>meta_GetCollection := (\<lambda>c. if c = 100 then Some coll_loading_50 else None),
      meta_CalculateLoadPercentage := (\<lambda>c. if c = 100 then 50 else - 1),
      meta_GetResourceGroupByCollection := (\<lambda>c. if c = 100 then [''rgB''] else [])\<rparr>"

definition lc_req :: "string list \<Rightarrow> bool \<Rightarrow> LoadCollectionRequest" where
  "lc_req rgs refresh = \<lparr>lcq_CollectionID = 100, lcq_ReplicaNumber = 1,
     lcq_ResourceGroups = rgs, lcq_Refresh = refresh\<rparr>"

definition lp_req :: "string list \<Rightarrow> bool \<Rightarrow> LoadPartitionsRequest" where
  "lp_req rgs refresh = \<lparr>lpq_CollectionID = 100, lpq_PartitionIDs = [1], lpq_ReplicaNumber = 1,
     lpq_ResourceGroups = rgs, lpq_Refresh = refresh\<rparr>"

text \<open>
  A coordinator with the resource groups rgA, rgB and the default one, and one with rgA
  and the default one only.
\<close>

definition srv_rgA_rgB :: server where
  "srv_rgA_rgB = srv0
     \<lparr>ResourceManager_ContainResourceGroup :=
        (\<lambda>rg. rg = ''rgA'' \<or> rg = ''rgB'' \<or> rg = ''__default_resource_group'')\<rparr>"

definition srv_rgA :: server where
  "srv_rgA = srv0
     \<lparr>ResourceManager_ContainResourceGroup :=
        (\<lambda>rg. rg = ''rgA'' \<or> rg = ''__default_resource_group'')\<rparr>"

definition transfer_req :: TransferReplicaRequest where
  "transfer_req = \<lparr>trq_SourceResourceGroup = ''rgA'', trq_TargetResourceGroup = ''rgB'',
     trq_CollectionID = 100, trq_NumReplica = 1\<rparr>"

definition lb_req :: "UniqueID list \<Rightarrow> UniqueID list \<Rightarrow> UniqueID list \<Rightarrow> LoadBalanceRequest" where
  "lb_req src dst sealed = \<lparr>lbq_CollectionID = 100, lbq_SourceNodeIDs = src,
     lbq_DstNodeIDs = dst, lbq_SealedSegmentIDs = sealed\<rparr>"

definition gl_req :: GetShardLeadersRequest where
  "gl_req = \<lparr>glq_CollectionID = 100\<rparr>"

text \<open>
  Collection 100, fully loaded, with one replica on the nodes 1, 2 and 3, none of them
  stopping. Node 1 holds the segments 10 and 11 of the collection; segment 10 is in the
  current target and segment 11 is not.
\<close>

definition replica_123 :: Replica where
  "replica_123 = \<lparr>rep_ID = 1, rep_CollectionID = 100,
     rep_ResourceGroup = ''__default_resource_group'', rep_Nodes = [1, 2, 3]\<rparr>"

definition seg :: "UniqueID \<Rightarrow> Segment" where
  "seg i = \<lparr>seg_ID = i, seg_CollectionID = 100, seg_Node = 1\<rparr>"

definition srv_balance :: server where
  "srv_balance = srv0
     \<lparr>meta_CalculateLoadPercentage := (\<lambda>c. if c = 100 then 100 else - 1),
      meta_GetByCollectionAndNode :=
        (\<lambda>c n. if c = 100 \<and> (n = 1 \<or> n = 2 \<or> n = 3) then Some replica_123 else None),
      nodeMgr_IsStoppingNode :=
        (\<lambda>n. if n = 1 \<or> n = 2 \<or> n = 3 then Inr False else Inl (ErrNodeNotFound n [])),
      SegmentDistManager_GetByFilter :=
        (\<lambda>fs. if fs = [WithCollectionID 100, WithNodeID 1] then [seg 10, seg 11] else []),
      targetMgr_GetSealedSegment :=
        (\<lambda>c sg scope. if c = 100 \<and> sg = 10 \<and> scope = CurrentTarget then Some 10 else None)\<rparr>"

text \<open>
  Collection 100, fully loaded, with the channels ch0 and ch1 in its current target. Node
  1 leads ch0 and node 2 leads ch1. In \<open>srv_leader_gone\<close> both leaders pass the
  availability check and node 2 is no longer known to the node manager when its address
  is looked up; in \<open>srv_leader_unavailable\<close> the leader of ch1 fails the availability
  check.
\<close>

definition coll_loaded_100 :: Collection where
  "coll_loaded_100 = \<lparr>col_CollectionID = 100, col_Status = LoadStatus_Loaded,
     col_LoadPercentage = 100, col_ReleasedPartitions = [], col_refreshNotifier = None\<rparr>"

definition leader :: "UniqueID \<Rightarrow> string \<Rightarrow> LeaderView" where
  "leader n ch = \<lparr>lv_ID = n, lv_CollectionID = 100, lv_Channel = ch, lv_Version = 1\<rparr>"

definition srv_leader_gone :: server where
  "srv_leader_gone = srv0
     \<lparr>meta_GetCollection := (\<lambda>c. if c = 100 then Some coll_loaded_100 else None),
      meta_CalculateLoadPercentage := (\<lambda>c. if c = 100 then 100 else - 1),
      targetMgr_GetDmChannelsByCollection :=
        (\<lambda>c scope. if c = 100 \<and> scope = CurrentTarget then [''ch0'', ''ch1''] else []),
      LeaderViewManager_GetByFilter :=
        (\<lambda>f. if f = WithChannelName2LeaderView ''ch0'' then [leader 1 ''ch0'']
              else if f = WithChannelName2LeaderView ''ch1'' then [leader 2 ''ch1'']
              else []),
      nodeMgr_Get := (\<lambda>n. if n = 1 then Some (node 1) else None)\<rparr>"

definition srv_leader_unavailable :: server where
  "srv_leader_unavailable = srv_leader_gone
     \<lparr>checkers_CheckLeaderAvailable :=
        (\<lambda>l targets. if lv_ID l = 2 then Some (ErrExternal ''leader not available'') else None)\<rparr>"

text \<open>One node whose probe fails in transport.\<close>

definition srv_one_fault :: server where
  "srv_one_fault = srv0
     \<lparr>nodeMgr_GetAll := [node 1],
      cluster_GetComponentStates := (\<lambda>n. Inl (ErrExternal ''connection refused''))\<rparr>"

section \<open>Predicates of the statements\<close>

text \<open>
  A handler raises no transport-level fault: when it returns, the Go error is nil.
\<close>

fun nilError :: "'r outcome \<Rightarrow> bool" where
  "nilError (Return r e) = (e = None)"
| "nilError Panic = True"

section \<open>The health probe: what a transport fault does\<close>

lemma checkNodeHealth_tasks_err:
  "snd (checkNodeHealth_tasks s nodes) \<noteq> None \<longleftrightarrow>
     (\<exists>n \<in> set nodes. isl (cluster_GetComponentStates s (ni_ID n)))"
  by (induction nodes) (auto split: prod.splits sum.splits option.splits)

lemma checkNodeHealth_tasks_reasons:
  "fst (checkNodeHealth_tasks s nodes) =
     concat (map (\<lambda>n. case cluster_GetComponentStates s (ni_ID n) of
                          Inl e \<Rightarrow> []
                        | Inr resp \<Rightarrow> (case merr_AnalyzeState s ''QueryNode'' (ni_ID n) resp of
                                         Some e \<Rightarrow> [ErrorText e] | None \<Rightarrow> [])) nodes)"
  by (induction nodes) (auto split: prod.splits sum.splits option.splits)

text \<open>
  Claim C1, as amended. On a healthy coordinator, when the component-state call of some
  node fails in transport, \<^verbatim>\<open>checkNodeHealth\<close> returns a non-nil error next to the
  reasons, and \<^verbatim>\<open>CheckHealth\<close> folds that error into an ordinary response: the Go error
  is nil, the status is the success status, \<^verbatim>\<open>IsHealthy\<close> is false, and the reasons are
  those of the nodes that answered with a state that \<^verbatim>\<open>AnalyzeState\<close> rejects; the
  transport error itself is not among them.
\<close>

theorem CheckHealth_transport_fault_folded:
  assumes "State s = StateCode_Healthy"
    and "\<exists>n \<in> set (nodeMgr_GetAll s). isl (cluster_GetComponentStates s (ni_ID n))"
  shows "snd (checkNodeHealth s) \<noteq> None \<and>
         CheckHealth s = Return \<lparr>chr_Status = Success, chr_IsHealthy = False,
                                 chr_Reasons = fst (checkNodeHealth s)\<rparr> None \<and>
         fst (checkNodeHealth s) =
           concat (map (\<lambda>n. case cluster_GetComponentStates s (ni_ID n) of
                          Inl e \<Rightarrow> []
                        | Inr resp \<Rightarrow> (case merr_AnalyzeState s ''QueryNode'' (ni_ID n) resp of
                                         Some e \<Rightarrow> [ErrorText e] | None \<Rightarrow> []))
                       (nodeMgr_GetAll s))"
proof -
  have e: "snd (checkNodeHealth s) \<noteq> None"
    unfolding checkNodeHealth_def using assms(2) checkNodeHealth_tasks_err by blast
  have "CheckHealth s = Return \<lparr>chr_Status = Success, chr_IsHealthy = False,
                                 chr_Reasons = fst (checkNodeHealth s)\<rparr> None"
    using e assms(1) by (auto simp: CheckHealth_def CheckHealthy_def split: prod.splits)
  then show ?thesis using e
    by (simp add: checkNodeHealth_def checkNodeHealth_tasks_reasons)
qed

text \<open>
  Claim C1, witness: three nodes, the probe of node 2 fails in transport and node 3
  answers an abnormal state.
\<close>

theorem CheckHealth_transport_fault_folded_witness:
  "State srv_probe_fault = StateCode_Healthy \<and>
   (\<exists>n \<in> set (nodeMgr_GetAll srv_probe_fault).
      isl (cluster_GetComponentStates srv_probe_fault (ni_ID n))) \<and>
   CheckHealth srv_probe_fault =
     Return \<lparr>chr_Status = Success, chr_IsHealthy = False,
             chr_Reasons = fst (checkNodeHealth srv_probe_fault)\<rparr> None"
proof -
  have h1: "State srv_probe_fault = StateCode_Healthy"
    by (simp add: srv_probe_fault_def srv0_def)
  have h2: "\<exists>n \<in> set (nodeMgr_GetAll srv_probe_fault).
      isl (cluster_GetComponentStates srv_probe_fault (ni_ID n))"
    by (simp add: srv_probe_fault_def srv0_def node_def)
  show ?thesis using CheckHealth_transport_fault_folded [OF h1 h2] h1 h2 by simp
qed

text \<open>
  Claim C1, counterexample to the claim as stated. With three nodes of which node 2 fails
  in transport, \<^verbatim>\<open>CheckHealth\<close> returns no Go error and a success status, and its whole
  result is the one it returns when node 2 is healthy and only node 3 reports an
  abnormal state: the transport fault is not escalated and not told apart.
\<close>

theorem CheckHealth_transport_fault_counterexample:
  "checkNodeHealth srv_probe_fault =
     ([ErrorText (ErrServiceNotReady StateCode_Abnormal)], Some (ErrExternal ''connection refused'')) \<and>
   CheckHealth srv_probe_fault =
     Return \<lparr>chr_Status = Success, chr_IsHealthy = False,
             chr_Reasons = [ErrorText (ErrServiceNotReady StateCode_Abnormal)]\<rparr> None \<and>
   CheckHealth srv_probe_fault = CheckHealth srv_probe_unhealthy"
  by (simp add: CheckHealth_def checkNodeHealth_def CheckHealthy_def srv_probe_fault_def
      srv_probe_unhealthy_def srv0_def node_def healthyStates_def abnormalStates_def)

section \<open>Refresh\<close>

lemma refreshCollection_not_loaded:
  assumes "\<forall>c. meta_GetCollection s cid = Some c \<longrightarrow> col_Status c \<noteq> LoadStatus_Loaded"
  shows "\<exists>ms. refreshCollection s cid = (Some (ErrCollectionNotLoaded cid ms), s)"
  using assms by (auto simp: refreshCollection_def split: option.splits)

lemma refreshCollection_loaded:
  assumes "meta_GetCollection s cid = Some c" "col_Status c = LoadStatus_Loaded"
  shows "fst (refreshCollection s cid) =
           (case targetObserver_UpdateNextTarget s cid of Inl err \<Rightarrow> Some err | Inr ch \<Rightarrow> None)"
  using assms by (auto simp: refreshCollection_def Let_def split: option.splits sum.splits)

lemma refreshCollection_percentage:
  "meta_CalculateLoadPercentage (snd (refreshCollection s cid)) = meta_CalculateLoadPercentage s \<and>
   meta_GetPartitionLoadPercentage (snd (refreshCollection s cid)) = meta_GetPartitionLoadPercentage s \<and>
   map_option col_LoadPercentage \<circ> meta_GetCollection (snd (refreshCollection s cid)) =
     map_option col_LoadPercentage \<circ> meta_GetCollection s \<and>
   jobScheduler (snd (refreshCollection s cid)) = jobScheduler s"
  by (auto simp: refreshCollection_def Let_def fun_eq_iff split: option.splits sum.splits)

text \<open>
  Claim C3, as amended. On a healthy coordinator, a load request with the refresh flag
  (\<^verbatim>\<open>LoadCollection\<close> or \<^verbatim>\<open>LoadPartitions\<close>) on a collection that is unknown or whose
  load status is not Loaded fails with CollectionNotLoaded and leaves the server as it
  was; the check reads the status, not the percentage, so on a collection whose status is
  Loaded the outcome is that of pulling the next target, whatever the percentage. In every
  case the refresh leaves the calculated load percentage, the partitions' percentages and
  the percentage field of every collection as they were.
\<close>

theorem refresh_needs_status_Loaded:
  assumes "State s = StateCode_Healthy" and "lcq_Refresh lreq" and "lpq_Refresh preq"
  shows "((\<forall>c. meta_GetCollection s (lcq_CollectionID lreq) = Some c \<longrightarrow> col_Status c \<noteq> LoadStatus_Loaded)
            \<longrightarrow> (\<exists>ms. LoadCollection s lreq =
                   (Return (Failure (ErrCollectionNotLoaded (lcq_CollectionID lreq) ms)) None, s))) \<and>
         ((\<forall>c. meta_GetCollection s (lpq_CollectionID preq) = Some c \<longrightarrow> col_Status c \<noteq> LoadStatus_Loaded)
            \<longrightarrow> (\<exists>ms. LoadPartitions s preq =
                   (Return (Failure (ErrCollectionNotLoaded (lpq_CollectionID preq) ms)) None, s))) \<and>
         ((\<exists>c. meta_GetCollection s (lcq_CollectionID lreq) = Some c \<and> col_Status c = LoadStatus_Loaded)
            \<longrightarrow> fst (LoadCollection s lreq) =
                  Return (case targetObserver_UpdateNextTarget s (lcq_CollectionID lreq) of
                            Inl err \<Rightarrow> Failure err | Inr ch \<Rightarrow> Success) None) \<and>
         meta_CalculateLoadPercentage (snd (LoadCollection s lreq)) = meta_CalculateLoadPercentage s \<and>
         meta_GetPartitionLoadPercentage (snd (LoadCollection s lreq)) = meta_GetPartitionLoadPercentage s \<and>
         map_option col_LoadPercentage \<circ> meta_GetCollection (snd (LoadCollection s lreq)) =
           map_option col_LoadPercentage \<circ> meta_GetCollection s \<and>
         meta_CalculateLoadPercentage (snd (LoadPartitions s preq)) = meta_CalculateLoadPercentage s \<and>
         meta_GetPartitionLoadPercentage (snd (LoadPartitions s preq)) = meta_GetPartitionLoadPercentage s \<and>
         map_option col_LoadPercentage \<circ> meta_GetCollection (snd (LoadPartitions s preq)) =
           map_option col_LoadPercentage \<circ> meta_GetCollection s"
proof -
  have lc: "LoadCollection s lreq =
      (Return (merr_Status (fst (refreshCollection s (lcq_CollectionID lreq)))) None,
       snd (refreshCollection s (lcq_CollectionID lreq)))"
    using assms by (simp add: LoadCollection_def CheckHealthy_def split: prod.splits)
  have lp: "LoadPartitions s preq =
      (Return (merr_Status (fst (refreshCollection s (lpq_CollectionID preq)))) None,
       snd (refreshCollection s (lpq_CollectionID preq)))"
    using assms by (simp add: LoadPartitions_def CheckHealthy_def split: prod.splits)
  have a: "(\<forall>c. meta_GetCollection s (lcq_CollectionID lreq) = Some c \<longrightarrow> col_Status c \<noteq> LoadStatus_Loaded)
            \<longrightarrow> (\<exists>ms. LoadCollection s lreq =
                   (Return (Failure (ErrCollectionNotLoaded (lcq_CollectionID lreq) ms)) None, s))"
    using refreshCollection_not_loaded [of s "lcq_CollectionID lreq"] lc by auto
  have b: "(\<forall>c. meta_GetCollection s (lpq_CollectionID preq) = Some c \<longrightarrow> col_Status c \<noteq> LoadStatus_Loaded)
            \<longrightarrow> (\<exists>ms. LoadPartitions s preq =
                   (Return (Failure (ErrCollectionNotLoaded (lpq_CollectionID preq) ms)) None, s))"
    using refreshCollection_not_loaded [of s "lpq_CollectionID preq"] lp by auto
  have c: "(\<exists>c. meta_GetCollection s (lcq_CollectionID lreq) = Some c \<and> col_Status c = LoadStatus_Loaded)
            \<longrightarrow> fst (LoadCollection s lreq) =
                  Return (case targetObserver_UpdateNextTarget s (lcq_CollectionID lreq) of
                            Inl err \<Rightarrow> Failure err | Inr ch \<Rightarrow> Success) None"
    using refreshCollection_loaded [of s "lcq_CollectionID lreq"] lc
    by (auto split: sum.splits)
  show ?thesis
    using a b c refreshCollection_percentage [of s "lcq_CollectionID lreq"]
      refreshCollection_percentage [of s "lpq_CollectionID preq"]
    by (simp only: lc lp snd_conv) 
qed

text \<open>
  Claim C3, witness: collection 100 at 50 percent, once with status Loading (the refresh
  fails) and once with status Loaded (the refresh succeeds and the percentage stays 50).
\<close>

theorem refresh_needs_status_Loaded_witness:
  "State srv_loading_50 = StateCode_Healthy \<and> lcq_Refresh (lc_req [] True) \<and>
   lpq_Refresh (lp_req [] True) \<and>
   map_option col_Status (meta_GetCollection srv_loading_50 100) = Some LoadStatus_Loading \<and>
   (\<exists>ms. LoadCollection srv_loading_50 (lc_req [] True) =
       (Return (Failure (ErrCollectionNotLoaded 100 ms)) None, srv_loading_50)) \<and>
   (\<exists>ms. LoadPartitions srv_loading_50 (lp_req [] True) =
       (Return (Failure (ErrCollectionNotLoaded 100 ms)) None, srv_loading_50)) \<and>
   (\<exists>c. meta_GetCollection srv_loaded_50 100 = Some c \<and> col_Status c = LoadStatus_Loaded) \<and>
   fst (LoadCollection srv_loaded_50 (lc_req [] True)) = Return Success None \<and>
   meta_CalculateLoadPercentage (snd (LoadCollection srv_loaded_50 (lc_req [] True))) 100 = 50"
proof -
  have h1: "State srv_loading_50 = StateCode_Healthy"
    by (simp add: srv_loading_50_def srv0_def)
  have h1': "State srv_loaded_50 = StateCode_Healthy"
    by (simp add: srv_loaded_50_def srv0_def)
  have h2: "lcq_Refresh (lc_req [] True)" by (simp add: lc_req_def)
  have h3: "lpq_Refresh (lp_req [] True)" by (simp add: lp_req_def)
  have h4: "\<forall>c. meta_GetCollection srv_loading_50 100 = Some c \<longrightarrow> col_Status c \<noteq> LoadStatus_Loaded"
    by (simp add: srv_loading_50_def srv0_def coll_loading_50_def)
  have h6: "map_option col_Status (meta_GetCollection srv_loading_50 100) = Some LoadStatus_Loading"
    by (simp add: srv_loading_50_def srv0_def coll_loading_50_def)
  have h5: "\<exists>c. meta_GetCollection srv_loaded_50 100 = Some c \<and> col_Status c = LoadStatus_Loaded"
    by (simp add: srv_loaded_50_def srv0_def coll_loaded_50_def)
  have i1: "lcq_CollectionID (lc_req [] True) = 100" by (simp add: lc_req_def)
  have i2: "lpq_CollectionID (lp_req [] True) = 100" by (simp add: lp_req_def)
  have u: "targetObserver_UpdateNextTarget srv_loaded_50 100 = Inr 7"
    by (simp add: srv_loaded_50_def srv0_def)
  have p: "meta_CalculateLoadPercentage srv_loaded_50 100 = 50"
    by (simp add: srv_loaded_50_def srv0_def)
  show ?thesis
    using refresh_needs_status_Loaded [OF h1 h2 h3] refresh_needs_status_Loaded [OF h1' h2 h3]
      h1 h2 h3 h4 h5 h6 u p
    by (simp add: i1 i2)
qed

text \<open>
  Claim C3, counterexample to the claim as stated: collection 100 has load percentage 50,
  below 100, and status Loaded; the refresh does not fail.
\<close>

theorem refresh_percentage_counterexample:
  "map_option col_LoadPercentage (meta_GetCollection srv_loaded_50 100) = Some 50 \<and>
   meta_CalculateLoadPercentage srv_loaded_50 100 = 50 \<and>
   fst (LoadCollection srv_loaded_50 (lc_req [] True)) = Return Success None \<and>
   fst (LoadPartitions srv_loaded_50 (lp_req [] True)) = Return Success None"
  by (simp add: LoadCollection_def LoadPartitions_def refreshCollection_def CheckHealthy_def
      srv_loaded_50_def srv0_def coll_loaded_50_def lc_req_def lp_req_def)

section \<open>Resource-group validation of load requests\<close>

lemma checkResourceGroup_loop_None:
  "checkResourceGroup_loop s used rgs rest = None \<longleftrightarrow>
     (\<forall>rg \<in> set rest. \<not> (used \<noteq> [] \<and> rg \<notin> set used) \<and>
                        \<not> (1 < length rgs \<and> rg = meta_DefaultResourceGroupName s))"
  by (induction rest) auto

lemma checkResourceGroup_loop_Code:
  "checkResourceGroup_loop s used rgs rest = Some e \<Longrightarrow> Code e = Code_ParameterInvalid"
  by (induction rest) (auto split: if_splits)

lemma checkResourceGroup_None:
  "checkResourceGroup s cid rgs = None \<longleftrightarrow>
     \<not> ((meta_GetResourceGroupByCollection s cid \<noteq> [] \<and>
          \<not> set rgs \<subseteq> set (meta_GetResourceGroupByCollection s cid)) \<or>
         (1 < length rgs \<and> meta_DefaultResourceGroupName s \<in> set rgs))"
  by (auto simp: checkResourceGroup_def checkResourceGroup_loop_None)

lemma checkResourceGroup_Code:
  "checkResourceGroup s cid rgs = Some e \<Longrightarrow> Code e = Code_ParameterInvalid"
  by (auto simp: checkResourceGroup_def checkResourceGroup_loop_Code split: if_splits)

text \<open>
  Claim C4, as amended. On a healthy coordinator, for every load request without the
  refresh flag (\<^verbatim>\<open>LoadCollection\<close> or \<^verbatim>\<open>LoadPartitions\<close>): if the collection already has
  replicas and some named group is not among the groups that hold one, or if more than
  one group is named and the default group is among them, the request is rejected with
  ParameterInvalid and the server, with its job queue, is left as it was; otherwise the
  load job is added to the scheduler.
\<close>

theorem load_validates_resource_groups:
  assumes "State s = StateCode_Healthy" and "\<not> lcq_Refresh lreq" and "\<not> lpq_Refresh preq"
  shows "(((meta_GetResourceGroupByCollection s (lcq_CollectionID lreq) \<noteq> [] \<and>
            \<not> set (lcq_ResourceGroups lreq) \<subseteq>
                set (meta_GetResourceGroupByCollection s (lcq_CollectionID lreq))) \<or>
           (1 < length (lcq_ResourceGroups lreq) \<and>
            meta_DefaultResourceGroupName s \<in> set (lcq_ResourceGroups lreq)))
          \<longrightarrow> (\<exists>e. LoadCollection s lreq = (Return (Failure e) None, s) \<and>
                    Code e = Code_ParameterInvalid)) \<and>
         (((meta_GetResourceGroupByCollection s (lpq_CollectionID preq) \<noteq> [] \<and>
            \<not> set (lpq_ResourceGroups preq) \<subseteq>
                set (meta_GetResourceGroupByCollection s (lpq_CollectionID preq))) \<or>
           (1 < length (lpq_ResourceGroups preq) \<and>
            meta_DefaultResourceGroupName s \<in> set (lpq_ResourceGroups preq)))
          \<longrightarrow> (\<exists>e. LoadPartitions s preq = (Return (Failure e) None, s) \<and>
                    Code e = Code_ParameterInvalid)) \<and>
         (\<not> ((meta_GetResourceGroupByCollection s (lcq_CollectionID lreq) \<noteq> [] \<and>
            \<not> set (lcq_ResourceGroups lreq) \<subseteq>
                set (meta_GetResourceGroupByCollection s (lcq_CollectionID lreq))) \<or>
           (1 < length (lcq_ResourceGroups lreq) \<and>
            meta_DefaultResourceGroupName s \<in> set (lcq_ResourceGroups lreq)))
          \<longrightarrow> jobScheduler (snd (LoadCollection s lreq)) = jobScheduler s @ [LoadCollectionJob lreq]) \<and>
         (\<not> ((meta_GetResourceGroupByCollection s (lpq_CollectionID preq) \<noteq> [] \<and>
            \<not> set (lpq_ResourceGroups preq) \<subseteq>
                set (meta_GetResourceGroupByCollection s (lpq_CollectionID preq))) \<or>
           (1 < length (lpq_ResourceGroups preq) \<and>
            meta_DefaultResourceGroupName s \<in> set (lpq_ResourceGroups preq)))
          \<longrightarrow> jobScheduler (snd (LoadPartitions s preq)) = jobScheduler s @ [LoadPartitionJob preq])"
proof -
  let ?cl = "checkResourceGroup s (lcq_CollectionID lreq) (lcq_ResourceGroups lreq)"
  let ?cp = "checkResourceGroup s (lpq_CollectionID preq) (lpq_ResourceGroups preq)"
  have l1: "\<And>e. ?cl = Some e \<Longrightarrow>
      LoadCollection s lreq = (Return (Failure (Wrap e (Lit ''failed to load collection''))) None, s)"
    using assms by (simp add: LoadCollection_def CheckHealthy_def)
  have l2: "?cl = None \<Longrightarrow>
      jobScheduler (snd (LoadCollection s lreq)) = jobScheduler s @ [LoadCollectionJob lreq]"
    using assms
    by (simp add: LoadCollection_def CheckHealthy_def AddAndWait_def split: option.splits)
  have p1: "\<And>e. ?cp = Some e \<Longrightarrow>
      LoadPartitions s preq = (Return (Failure (Wrap e (Lit ''failed to load partitions''))) None, s)"
    using assms by (simp add: LoadPartitions_def CheckHealthy_def)
  have p2: "?cp = None \<Longrightarrow>
      jobScheduler (snd (LoadPartitions s preq)) = jobScheduler s @ [LoadPartitionJob preq]"
    using assms
    by (simp add: LoadPartitions_def CheckHealthy_def AddAndWait_def split: option.splits)
  have a: "?cl \<noteq> None \<Longrightarrow> \<exists>e. LoadCollection s lreq = (Return (Failure e) None, s) \<and>
                    Code e = Code_ParameterInvalid"
    using l1 checkResourceGroup_Code by fastforce
  have b: "?cp \<noteq> None \<Longrightarrow> \<exists>e. LoadPartitions s preq = (Return (Failure e) None, s) \<and>
                    Code e = Code_ParameterInvalid"
    using p1 checkResourceGroup_Code by fastforce
  note nl = checkResourceGroup_None [of s "lcq_CollectionID lreq" "lcq_ResourceGroups lreq"]
  note np = checkResourceGroup_None [of s "lpq_CollectionID preq" "lpq_ResourceGroups preq"]
  have c1: "((meta_GetResourceGroupByCollection s (lcq_CollectionID lreq) \<noteq> [] \<and>
            \<not> set (lcq_ResourceGroups lreq) \<subseteq>
                set (meta_GetResourceGroupByCollection s (lcq_CollectionID lreq))) \<or>
           (1 < length (lcq_ResourceGroups lreq) \<and>
            meta_DefaultResourceGroupName s \<in> set (lcq_ResourceGroups lreq)))
          \<longrightarrow> (\<exists>e. LoadCollection s lreq = (Return (Failure e) None, s) \<and>
                    Code e = Code_ParameterInvalid)"
    using a nl by argo
  have c2: "((meta_GetResourceGroupByCollection s (lpq_CollectionID preq) \<noteq> [] \<and>
            \<not> set (lpq_ResourceGroups preq) \<subseteq>
                set (meta_GetResourceGroupByCollection s (lpq_CollectionID preq))) \<or>
           (1 < length (lpq_ResourceGroups preq) \<and>
            meta_DefaultResourceGroupName s \<in> set (lpq_ResourceGroups preq)))
          \<longrightarrow> (\<exists>e. LoadPartitions s preq = (Return (Failure e) None, s) \<and>
                    Code e = Code_ParameterInvalid)"
    using b np by argo
  have c3: "\<not> ((meta_GetResourceGroupByCollection s (lcq_CollectionID lreq) \<noteq> [] \<and>
            \<not> set (lcq_ResourceGroups lreq) \<subseteq>
                set (meta_GetResourceGroupByCollection s (lcq_CollectionID lreq))) \<or>
           (1 < length (lcq_ResourceGroups lreq) \<and>
            meta_DefaultResourceGroupName s \<in> set (lcq_ResourceGroups lreq)))
          \<longrightarrow> jobScheduler (snd (LoadCollection s lreq)) = jobScheduler s @ [LoadCollectionJob lreq]"
    using l2 nl by argo
  have c4: "\<not> ((meta_GetResourceGroupByCollection s (lpq_CollectionID preq) \<noteq> [] \<and>
            \<not> set (lpq_ResourceGroups preq) \<subseteq>
                set (meta_GetResourceGroupByCollection s (lpq_CollectionID preq))) \<or>
           (1 < length (lpq_ResourceGroups preq) \<and>
            meta_DefaultResourceGroupName s \<in> set (lpq_ResourceGroups preq)))
          \<longrightarrow> jobScheduler (snd (LoadPartitions s preq)) = jobScheduler s @ [LoadPartitionJob preq]"
    using p2 np by argo
  show ?thesis
    using c1 c2 c3 c4 by (intro conjI)
qed

text \<open>
  Claim C4, witness: collection 100 has replicas in rgB only. Naming rgA is rejected,
  naming the default group together with rgB is rejected, naming rgB submits the job.
\<close>

theorem load_validates_resource_groups_witness:
  "State srv_loading_50 = StateCode_Healthy \<and>
   \<not> lcq_Refresh (lc_req [''rgA''] False) \<and> \<not> lpq_Refresh (lp_req [''__default_resource_group'', ''rgB''] False) \<and>
   meta_GetResourceGroupByCollection srv_loading_50 100 = [''rgB''] \<and>
   (\<exists>e. LoadCollection srv_loading_50 (lc_req [''rgA''] False) =
           (Return (Failure e) None, srv_loading_50) \<and> Code e = Code_ParameterInvalid) \<and>
   (\<exists>e. LoadPartitions srv_loading_50 (lp_req [''__default_resource_group'', ''rgB''] False) =
           (Return (Failure e) None, srv_loading_50) \<and> Code e = Code_ParameterInvalid) \<and>
   jobScheduler (snd (LoadCollection srv_loading_50 (lc_req [''rgB''] False))) =
     [LoadCollectionJob (lc_req [''rgB''] False)] \<and>
   jobScheduler (snd (LoadPartitions srv_loading_50 (lp_req [''rgB''] False))) =
     [LoadPartitionJob (lp_req [''rgB''] False)]"
proof -
  have h1: "State srv_loading_50 = StateCode_Healthy"
    by (simp add: srv_loading_50_def srv0_def)
  have h2: "\<not> lcq_Refresh (lc_req rgs False)" for rgs by (simp add: lc_req_def)
  have h3: "\<not> lpq_Refresh (lp_req rgs False)" for rgs by (simp add: lp_req_def)
  have u: "meta_GetResourceGroupByCollection srv_loading_50 100 = [''rgB'']"
    by (simp add: srv_loading_50_def srv0_def)
  have d: "meta_DefaultResourceGroupName srv_loading_50 = ''__default_resource_group''"
    by (simp add: srv_loading_50_def srv0_def)
  have j: "jobScheduler srv_loading_50 = []"
    by (simp add: srv_loading_50_def srv0_def)
  have f: "lcq_CollectionID (lc_req rgs False) = 100" "lcq_ResourceGroups (lc_req rgs False) = rgs"
     "lpq_CollectionID (lp_req rgs False) = 100" "lpq_ResourceGroups (lp_req rgs False) = rgs" for rgs
    by (simp_all add: lc_req_def lp_req_def)
  show ?thesis
    using load_validates_resource_groups [OF h1 h2 h3,
        of "[''rgA'']" "[''__default_resource_group'', ''rgB'']"]
      load_validates_resource_groups [OF h1 h2 h3, of "[''rgB'']" "[''rgB'']"]
      h1 h2 h3
    by (simp add: f u d j)
qed

text \<open>
  Claim C4, counterexample to the claim as stated: a load request with the refresh flag
  that names the default group together with rgA, on a collection whose replicas are in
  rgB only, is not rejected; the refresh path returns before the resource groups are
  checked.
\<close>

theorem load_validates_resource_groups_counterexample:
  "meta_GetResourceGroupByCollection srv_loaded_50 100 = [''rgB''] \<and>
   LoadCollection srv_loaded_50 (lc_req [meta_DefaultResourceGroupName srv_loaded_50, ''rgA''] True) =
     (Return Success None,
      snd (refreshCollection srv_loaded_50 100)) \<and>
   LoadPartitions srv_loaded_50 (lp_req [meta_DefaultResourceGroupName srv_loaded_50, ''rgA''] True) =
     (Return Success None,
      snd (refreshCollection srv_loaded_50 100))"
  by (simp add: LoadCollection_def LoadPartitions_def refreshCollection_def CheckHealthy_def
      srv_loaded_50_def srv0_def coll_loaded_50_def lc_req_def lp_req_def)

section \<open>Replica transfer\<close>

text \<open>
  Claim C8. On a healthy coordinator, \<^verbatim>\<open>TransferReplica\<close> fails with
  ResourceGroupNotFound, leaving the server as it was, when the source group or the
  target group does not exist; when both exist it calls \<^verbatim>\<open>meta.TransferReplica\<close> with
  the request's arguments, once, and returns the status of what that call answers.
\<close>

theorem TransferReplica_needs_both_groups:
  assumes "State s = StateCode_Healthy"
  shows "((\<not> ResourceManager_ContainResourceGroup s (trq_SourceResourceGroup req) \<or>
           \<not> ResourceManager_ContainResourceGroup s (trq_TargetResourceGroup req))
          \<longrightarrow> (\<exists>e. TransferReplica s req = (Return (Failure e) None, s) \<and>
                    Code e = Code_ResourceGroupNotFound)) \<and>
         ((ResourceManager_ContainResourceGroup s (trq_SourceResourceGroup req) \<and>
           ResourceManager_ContainResourceGroup s (trq_TargetResourceGroup req))
          \<longrightarrow> TransferReplica s req =
                (Return (merr_Status (meta_TransferReplica s (trq_CollectionID req)
                           (trq_SourceResourceGroup req) (trq_TargetResourceGroup req)
                           (trq_NumReplica req))) None,
                 s\<lparr>calls := calls s @
                     [Call_TransferReplica (trq_CollectionID req) (trq_SourceResourceGroup req)
                        (trq_TargetResourceGroup req) (trq_NumReplica req)]\<rparr>))"
  using assms by (auto simp: TransferReplica_def CheckHealthy_def)

text \<open>
  Claim C8, witness: transferring one replica of collection 100 from rgA to rgB succeeds
  when rgB exists and fails with ResourceGroupNotFound when it does not.
\<close>

theorem TransferReplica_needs_both_groups_witness:
  "State srv_rgA_rgB = StateCode_Healthy \<and> State srv_rgA = StateCode_Healthy \<and>
   ResourceManager_ContainResourceGroup srv_rgA_rgB ''rgA'' \<and>
   ResourceManager_ContainResourceGroup srv_rgA_rgB ''rgB'' \<and>
   \<not> ResourceManager_ContainResourceGroup srv_rgA ''rgB'' \<and>
   TransferReplica srv_rgA_rgB transfer_req =
     (Return Success None, srv_rgA_rgB\<lparr>calls := [Call_TransferReplica 100 ''rgA'' ''rgB'' 1]\<rparr>) \<and>
   (\<exists>e. TransferReplica srv_rgA transfer_req = (Return (Failure e) None, srv_rgA) \<and>
        Code e = Code_ResourceGroupNotFound)"
proof -
  have h1: "State srv_rgA_rgB = StateCode_Healthy" by (simp add: srv_rgA_rgB_def srv0_def)
  have h2: "State srv_rgA = StateCode_Healthy" by (simp add: srv_rgA_def srv0_def)
  have c: "ResourceManager_ContainResourceGroup srv_rgA_rgB ''rgA''"
    "ResourceManager_ContainResourceGroup srv_rgA_rgB ''rgB''"
    "\<not> ResourceManager_ContainResourceGroup srv_rgA ''rgB''"
    by (simp_all add: srv_rgA_rgB_def srv_rgA_def srv0_def)
  have r: "trq_SourceResourceGroup transfer_req = ''rgA''"
    "trq_TargetResourceGroup transfer_req = ''rgB''"
    "trq_CollectionID transfer_req = 100" "trq_NumReplica transfer_req = 1"
    by (simp_all add: transfer_req_def)
  have m: "meta_TransferReplica srv_rgA_rgB 100 ''rgA'' ''rgB'' 1 = None"
    "calls srv_rgA_rgB = []"
    by (simp_all add: srv_rgA_rgB_def srv0_def)
  show ?thesis
    using TransferReplica_needs_both_groups [OF h1, of transfer_req]
      TransferReplica_needs_both_groups [OF h2, of transfer_req] h1 h2 c
    by (simp add: r m)
qed

section \<open>Load balance: the count of source nodes\<close>

text \<open>
  Claim C9. On a healthy coordinator, \<^verbatim>\<open>LoadBalance\<close> rejects every request whose list
  of source nodes does not have exactly one element with a ParameterInvalid failure that
  is built from the request alone, and leaves the server as it was; no collaborator is
  read on the way, so every healthy coordinator, whatever its placement state, answers
  the same.
\<close>

theorem LoadBalance_source_count:
  assumes "State s = StateCode_Healthy" and "length (lbq_SourceNodeIDs req) \<noteq> 1"
  shows "LoadBalance s req =
           (Return (Failure (ErrParameterInvalid (Lit ''only 1 source node'')
              (Sprintf ''%d source nodes'' [ArgInt (int (length (lbq_SourceNodeIDs req)))]) []))
              None, s) \<and>
         Code (ErrParameterInvalid (Lit ''only 1 source node'')
              (Sprintf ''%d source nodes'' [ArgInt (int (length (lbq_SourceNodeIDs req)))]) [])
           = Code_ParameterInvalid \<and>
         (\<forall>s'. State s' = StateCode_Healthy \<longrightarrow>
                fst (LoadBalance s' req) = fst (LoadBalance s req))"
  using assms by (simp add: LoadBalance_def LoadBalance_verify_def CheckHealthy_def)

text \<open>
  Claim C9, witness: a request with two source nodes and a request with none, on a
  coordinator where nothing is loaded.
\<close>

theorem LoadBalance_source_count_witness:
  "State srv0 = StateCode_Healthy \<and>
   length (lbq_SourceNodeIDs (lb_req [1, 2] [] [])) \<noteq> 1 \<and>
   length (lbq_SourceNodeIDs (lb_req [] [] [])) \<noteq> 1 \<and>
   LoadBalance srv0 (lb_req [1, 2] [] []) =
     (Return (Failure (ErrParameterInvalid (Lit ''only 1 source node'')
        (Sprintf ''%d source nodes'' [ArgInt 2]) [])) None, srv0) \<and>
   LoadBalance srv0 (lb_req [] [] []) =
     (Return (Failure (ErrParameterInvalid (Lit ''only 1 source node'')
        (Sprintf ''%d source nodes'' [ArgInt 0]) [])) None, srv0)"
proof -
  have h1: "State srv0 = StateCode_Healthy" by (simp add: srv0_def)
  have h2: "length (lbq_SourceNodeIDs (lb_req [1, 2] [] [])) \<noteq> 1"
    by (simp add: lb_req_def)
  have h3: "length (lbq_SourceNodeIDs (lb_req [] [] [])) \<noteq> 1"
    by (simp add: lb_req_def)
  have l: "lbq_SourceNodeIDs (lb_req src [] []) = src" for src by (simp add: lb_req_def)
  show ?thesis
    using LoadBalance_source_count [OF h1 h2] LoadBalance_source_count [OF h1 h3] h1 h2 h3
    by (simp add: l)
qed

section \<open>Shard leaders: the load check\<close>

lemma GetShardLeaders_channels_status:
  "GetShardLeaders_channels s targets chs resp = Return r e \<Longrightarrow>
     glr_Status r = glr_Status resp \<or>
     (\<exists>ch m. glr_Status r = Failure (Wrap (ErrChannelNotAvailable ch) m))"
proof (induction chs arbitrary: resp)
  case Nil
  then show ?case by simp
next
  case (Cons ch chs)
  then show ?case
    by (fastforce simp: Let_def GetShardLeaders_notAvailable_def
        split: if_splits option.splits)
qed

text \<open>
  Claim C5. On a healthy coordinator, \<^verbatim>\<open>GetShardLeaders\<close> answers CollectionNotLoaded
  when the calculated load percentage is negative; it answers CollectionNotFullyLoaded
  when the percentage is from 0 to 99 and the collection is unknown or its status is not
  Loaded; and when the percentage is not negative and the status is Loaded it goes on as
  if the percentage were 100: the result is the one that the same coordinator gives with
  a calculated percentage of 100, and it is never CollectionNotFullyLoaded.
\<close>

theorem GetShardLeaders_load_check:
  assumes "State s = StateCode_Healthy"
  shows "(meta_CalculateLoadPercentage s (glq_CollectionID req) < 0
          \<longrightarrow> GetShardLeaders s req =
                Return \<lparr>glr_Status = Failure (ErrCollectionNotLoaded (glq_CollectionID req) []),
                        glr_Shards = []\<rparr> None) \<and>
         (0 \<le> meta_CalculateLoadPercentage s (glq_CollectionID req) \<and>
          meta_CalculateLoadPercentage s (glq_CollectionID req) < 100 \<and>
          \<not> (\<exists>c. meta_GetCollection s (glq_CollectionID req) = Some c \<and>
                  col_Status c = LoadStatus_Loaded)
          \<longrightarrow> GetShardLeaders s req =
                Return \<lparr>glr_Status = Failure (ErrCollectionNotFullyLoaded (glq_CollectionID req)),
                        glr_Shards = []\<rparr> None) \<and>
         (0 \<le> meta_CalculateLoadPercentage s (glq_CollectionID req) \<and>
          (\<exists>c. meta_GetCollection s (glq_CollectionID req) = Some c \<and>
               col_Status c = LoadStatus_Loaded)
          \<longrightarrow> GetShardLeaders s req =
                GetShardLeaders (s\<lparr>meta_CalculateLoadPercentage := (\<lambda>c. 100)\<rparr>) req \<and>
              (\<forall>r e. GetShardLeaders s req = Return r e \<longrightarrow>
                 glr_Status r \<noteq> Failure (ErrCollectionNotFullyLoaded (glq_CollectionID req))))"
proof -
  let ?cid = "glq_CollectionID req"
  let ?pct = "meta_CalculateLoadPercentage s ?cid"
  let ?s100 = "s\<lparr>meta_CalculateLoadPercentage := (\<lambda>c. 100)\<rparr>"
  have a: "?pct < 0 \<Longrightarrow> GetShardLeaders s req =
      Return \<lparr>glr_Status = Failure (ErrCollectionNotLoaded ?cid []), glr_Shards = []\<rparr> None"
    using assms by (simp add: GetShardLeaders_def CheckHealthy_def)
  have b: "0 \<le> ?pct \<Longrightarrow> ?pct < 100 \<Longrightarrow>
      \<not> (\<exists>c. meta_GetCollection s ?cid = Some c \<and> col_Status c = LoadStatus_Loaded) \<Longrightarrow>
      GetShardLeaders s req =
        Return \<lparr>glr_Status = Failure (ErrCollectionNotFullyLoaded ?cid), glr_Shards = []\<rparr> None"
    using assms by (auto simp: GetShardLeaders_def CheckHealthy_def Let_def split: option.splits)
  have ch: "GetShardLeaders_channels ?s100 t chs resp = GetShardLeaders_channels s t chs resp"
    for t chs resp
  proof (induction chs arbitrary: resp)
    case Nil
    show ?case by simp
  next
    case (Cons c chs)
    have rd: "GetShardLeaders_readable ?s100 t ls rl ce = GetShardLeaders_readable s t ls rl ce"
      for ls rl ce
      by (induction ls arbitrary: rl ce) (auto split: option.splits)
    have ad: "GetShardLeaders_addrs ?s100 kvs = GetShardLeaders_addrs s kvs" for kvs
      by (induction kvs) (auto split: option.splits prod.splits)
    show ?case using Cons.IH by (simp add: rd ad Let_def)
  qed
  have c1: "0 \<le> ?pct \<Longrightarrow> meta_GetCollection s ?cid = Some c \<Longrightarrow> col_Status c = LoadStatus_Loaded \<Longrightarrow>
      GetShardLeaders s req = GetShardLeaders ?s100 req" for c
    using assms by (simp add: GetShardLeaders_def CheckHealthy_def Let_def ch)
  have c2: "0 \<le> ?pct \<Longrightarrow> meta_GetCollection s ?cid = Some c \<Longrightarrow> col_Status c = LoadStatus_Loaded \<Longrightarrow>
      GetShardLeaders s req = Return r e \<Longrightarrow>
      glr_Status r \<noteq> Failure (ErrCollectionNotFullyLoaded ?cid)" for c r e
  proof -
    assume h: "0 \<le> ?pct" "meta_GetCollection s ?cid = Some c" "col_Status c = LoadStatus_Loaded"
      "GetShardLeaders s req = Return r e"
    show ?thesis
    proof (cases "targetMgr_GetDmChannelsByCollection s ?cid CurrentTarget = []")
      case True
      then show ?thesis using h assms
        by (auto simp: GetShardLeaders_def CheckHealthy_def Let_def)
    next
      case False
      then have "GetShardLeaders_channels s
          (targetMgr_GetSealedSegmentsByCollection s ?cid CurrentTarget)
          (targetMgr_GetDmChannelsByCollection s ?cid CurrentTarget)
          \<lparr>glr_Status = Success, glr_Shards = []\<rparr> = Return r e"
        using h assms by (simp add: GetShardLeaders_def CheckHealthy_def Let_def)
      from GetShardLeaders_channels_status [OF this] show ?thesis by auto
    qed
  qed
  show ?thesis using a b c1 c2 by blast
qed

text \<open>
  Claim C5, witness: collection 100 at 50 percent with status Loaded passes the check (and
  is reported as recovering, since its target has no channel); with status Loading it is
  not fully loaded; a collection that is not loaded at all has percentage -1.
\<close>

theorem GetShardLeaders_load_check_witness:
  "State srv_loaded_50 = StateCode_Healthy \<and>
   meta_CalculateLoadPercentage srv_loaded_50 100 = 50 \<and>
   map_option col_Status (meta_GetCollection srv_loaded_50 100) = Some LoadStatus_Loaded \<and>
   GetShardLeaders srv_loaded_50 gl_req =
     GetShardLeaders (srv_loaded_50\<lparr>meta_CalculateLoadPercentage := (\<lambda>c. 100)\<rparr>) gl_req \<and>
   meta_CalculateLoadPercentage srv_loading_50 100 = 50 \<and>
   map_option col_Status (meta_GetCollection srv_loading_50 100) = Some LoadStatus_Loading \<and>
   GetShardLeaders srv_loading_50 gl_req =
     Return \<lparr>glr_Status = Failure (ErrCollectionNotFullyLoaded 100), glr_Shards = []\<rparr> None \<and>
   meta_CalculateLoadPercentage srv0 100 = - 1 \<and>
   GetShardLeaders srv0 gl_req =
     Return \<lparr>glr_Status = Failure (ErrCollectionNotLoaded 100 []), glr_Shards = []\<rparr> None"
proof -
  have h1: "State srv_loaded_50 = StateCode_Healthy" by (simp add: srv_loaded_50_def srv0_def)
  have h2: "State srv_loading_50 = StateCode_Healthy" by (simp add: srv_loading_50_def srv0_def)
  have h3: "State srv0 = StateCode_Healthy" by (simp add: srv0_def)
  have g: "glq_CollectionID gl_req = 100" by (simp add: gl_req_def)
  have p: "meta_CalculateLoadPercentage srv_loaded_50 100 = 50"
    "meta_CalculateLoadPercentage srv_loading_50 100 = 50"
    "meta_CalculateLoadPercentage srv0 100 = - 1"
    by (simp_all add: srv_loaded_50_def srv_loading_50_def srv0_def)
  have c: "meta_GetCollection srv_loaded_50 100 = Some coll_loaded_50"
    "meta_GetCollection srv_loading_50 100 = Some coll_loading_50"
    by (simp_all add: srv_loaded_50_def srv_loading_50_def srv0_def)
  have st: "col_Status coll_loaded_50 = LoadStatus_Loaded"
    "col_Status coll_loading_50 = LoadStatus_Loading"
    by (simp_all add: coll_loaded_50_def coll_loading_50_def)
  show ?thesis
    using GetShardLeaders_load_check [OF h1, of gl_req] GetShardLeaders_load_check [OF h2, of gl_req]
      GetShardLeaders_load_check [OF h3, of gl_req] h1
    by (simp add: g p c st)
qed

section \<open>Load balance: destinations and segments\<close>

lemma set_Set_Insert: "set (Set_Insert xs ys) = set xs \<union> set ys"
  unfolding Set_Insert_def
  by (induction ys arbitrary: xs) (auto simp: Set_Insert1_def)

lemma distinct_Set_Insert: "distinct xs \<Longrightarrow> distinct (Set_Insert xs ys)"
  unfolding Set_Insert_def
  by (induction ys arbitrary: xs) (auto simp: Set_Insert1_def)

lemma LoadBalance_dstNodes_ok:
  "\<forall>d \<in> set dst. Contains replica d \<Longrightarrow>
     LoadBalance_dstNodes replica dst acc = Inr (Set_Insert acc dst)"
  by (induction dst arbitrary: acc) (auto simp: Set_Insert_def)

lemma LoadBalance_dstNodes_reject:
  "\<exists>d \<in> set dst. \<not> Contains replica d \<Longrightarrow>
     \<exists>d \<in> set dst. \<not> Contains replica d \<and>
       LoadBalance_dstNodes replica dst acc =
         Inl (ErrNodeNotFound d [Lit ''destination node not found in the same replica''])"
  by (induction dst arbitrary: acc) auto

lemma LoadBalance_checkDst_None:
  "LoadBalance_checkDst s ds = None \<longleftrightarrow> (\<forall>d \<in> set ds. isStoppingNode s d = None)"
  by (induction ds) (auto split: option.splits)

text \<open>
  The part of claim C2 that the code keeps: what \<^verbatim>\<open>LoadBalance\<close> does with the
  destinations that a request names, once the source node has passed its checks. A named
  destination outside the replica rejects the request with NodeNotFound; otherwise a
  destination that is stopping or unknown to the node manager rejects it; otherwise the
  destination set is the set of the named nodes.
\<close>

lemma LoadBalance_named_destinations:
  assumes "length (lbq_SourceNodeIDs req) = 1"
    and "\<not> meta_CalculateLoadPercentage s (lbq_CollectionID req) < 100"
    and "meta_GetByCollectionAndNode s (lbq_CollectionID req) (hd (lbq_SourceNodeIDs req)) = Some replica"
    and "isStoppingNode s (hd (lbq_SourceNodeIDs req)) = None"
    and "lbq_DstNodeIDs req \<noteq> []"
  shows "((\<exists>d \<in> set (lbq_DstNodeIDs req). \<not> Contains replica d) \<longrightarrow>
            (\<exists>e. LoadBalance_verify s req = Inl e \<and> Code e = Code_NodeNotFound)) \<and>
         ((\<forall>d \<in> set (lbq_DstNodeIDs req). Contains replica d) \<and>
          (\<exists>d \<in> set (lbq_DstNodeIDs req). isStoppingNode s d \<noteq> None) \<longrightarrow>
            (\<exists>e. LoadBalance_verify s req = Inl e)) \<and>
         ((\<forall>d \<in> set (lbq_DstNodeIDs req). Contains replica d \<and> isStoppingNode s d = None) \<longrightarrow>
            (\<exists>dstNodeSet. LoadBalance_verify s req =
                Inr (replica, hd (lbq_SourceNodeIDs req), dstNodeSet) \<and>
              set dstNodeSet = set (lbq_DstNodeIDs req)))"
proof -
  let ?dst = "lbq_DstNodeIDs req"
  have v: "LoadBalance_verify s req =
      (case LoadBalance_dstNodes replica ?dst [] of
         Inl err \<Rightarrow> Inl err
       | Inr dstNodeSet \<Rightarrow>
           (case LoadBalance_checkDst s dstNodeSet of
              Some err \<Rightarrow> Inl err
            | None \<Rightarrow> Inr (replica, hd (lbq_SourceNodeIDs req), dstNodeSet)))"
    using assms by (simp add: LoadBalance_verify_def LoadBalance_dstNodeSet_def Let_def)
  have a: "(\<exists>d \<in> set ?dst. \<not> Contains replica d) \<longrightarrow>
            (\<exists>e. LoadBalance_verify s req = Inl e \<and> Code e = Code_NodeNotFound)"
  proof
    assume "\<exists>d \<in> set ?dst. \<not> Contains replica d"
    from LoadBalance_dstNodes_reject [OF this, of "[]"]
    obtain d where "LoadBalance_dstNodes replica ?dst [] =
         Inl (ErrNodeNotFound d [Lit ''destination node not found in the same replica''])"
      by blast
    then show "\<exists>e. LoadBalance_verify s req = Inl e \<and> Code e = Code_NodeNotFound"
      by (simp add: v)
  qed
  have b: "(\<forall>d \<in> set ?dst. Contains replica d) \<and>
          (\<exists>d \<in> set ?dst. isStoppingNode s d \<noteq> None) \<longrightarrow>
            (\<exists>e. LoadBalance_verify s req = Inl e)"
  proof
    assume h: "(\<forall>d \<in> set ?dst. Contains replica d) \<and>
          (\<exists>d \<in> set ?dst. isStoppingNode s d \<noteq> None)"
    then have d: "LoadBalance_dstNodes replica ?dst [] = Inr (Set_Insert [] ?dst)"
      using LoadBalance_dstNodes_ok by blast
    have "LoadBalance_checkDst s (Set_Insert [] ?dst) \<noteq> None"
      using h by (simp add: LoadBalance_checkDst_None set_Set_Insert)
    then show "\<exists>e. LoadBalance_verify s req = Inl e"
      by (auto simp: v d)
  qed
  have c: "(\<forall>d \<in> set ?dst. Contains replica d \<and> isStoppingNode s d = None) \<longrightarrow>
            (\<exists>dstNodeSet. LoadBalance_verify s req =
                Inr (replica, hd (lbq_SourceNodeIDs req), dstNodeSet) \<and>
              set dstNodeSet = set ?dst)"
  proof
    assume h: "\<forall>d \<in> set ?dst. Contains replica d \<and> isStoppingNode s d = None"
    then have d: "LoadBalance_dstNodes replica ?dst [] = Inr (Set_Insert [] ?dst)"
      using LoadBalance_dstNodes_ok by blast
    have "LoadBalance_checkDst s (Set_Insert [] ?dst) = None"
      using h by (simp add: LoadBalance_checkDst_None set_Set_Insert)
    then show "\<exists>dstNodeSet. LoadBalance_verify s req =
                Inr (replica, hd (lbq_SourceNodeIDs req), dstNodeSet) \<and>
              set dstNodeSet = set ?dst"
      by (simp add: v d set_Set_Insert)
  qed
  show ?thesis using a b c by (intro conjI)
qed

text \<open>
  What the code does with an empty destination list, on every input: the destination set
  is the set of all nodes of the replica, and the source node stays in it whenever the
  replica contains it.
\<close>

lemma LoadBalance_default_destinations:
  assumes "lbq_DstNodeIDs req = []"
  shows "\<exists>dstNodeSet. LoadBalance_dstNodeSet replica req = Inr dstNodeSet \<and>
           set dstNodeSet = set (rep_Nodes replica) \<and>
           (Contains replica srcNode \<longrightarrow> srcNode \<in> set dstNodeSet)"
  using assms by (simp add: LoadBalance_dstNodeSet_def set_Set_Insert Contains_def)

text \<open>
  Claim C2, the code at the failing input. The replica of collection 100 has the nodes
  1, 2 and 3; a request with source node 1 and no destination passes the verification
  with the destination set 1, 2, 3, and that set, with the source node in it, is what
  \<^verbatim>\<open>balanceSegments\<close> is called with.
\<close>

theorem LoadBalance_default_destinations_keep_source:
  "LoadBalance_verify srv_balance (lb_req [1] [] []) = Inr (replica_123, 1, [1, 2, 3]) \<and>
   LoadBalance srv_balance (lb_req [1] [] []) =
     (Return Success None,
      srv_balance\<lparr>calls := [Call_balanceSegments 100 replica_123 1 [1, 2, 3] [seg 10, seg 11]
                               True False]\<rparr>)"
proof -
  have v: "LoadBalance_verify srv_balance (lb_req [1] [] []) = Inr (replica_123, 1, [1, 2, 3])"
    by (simp add: LoadBalance_verify_def LoadBalance_dstNodeSet_def isStoppingNode_def
        Set_Insert_def Set_Insert1_def srv_balance_def srv0_def lb_req_def replica_123_def)
  have t: "LoadBalance_toBalance srv_balance (lb_req [1] [] []) 1 = Inr [seg 10, seg 11]"
    by (simp add: LoadBalance_toBalance_def Set_Insert_def Set_Insert1_def srv_balance_def
        srv0_def lb_req_def seg_def)
  have r: "rep_CollectionID replica_123 = 100" by (simp add: replica_123_def)
  have h: "State srv_balance = StateCode_Healthy" by (simp add: srv_balance_def srv0_def)
  have b: "balanceSegments srv_balance c rp src dst sgs cm sy = None" for c rp src dst sgs cm sy
    by (simp add: srv_balance_def srv0_def)
  have c: "calls srv_balance = []" by (simp add: srv_balance_def srv0_def)
  have "LoadBalance srv_balance (lb_req [1] [] []) =
     (Return Success None,
      srv_balance\<lparr>calls := calls srv_balance @
         [Call_balanceSegments 100 replica_123 1 [1, 2, 3] [seg 10, seg 11] True False]\<rparr>)"
    by (simp add: LoadBalance_def v t CheckHealthy_def r h b)
  then show ?thesis using v c by simp
qed

lemma SliceToMap_None:
  "SliceToMap segs (\<lambda>sg. (seg_ID sg, sg)) i = None \<longleftrightarrow> i \<notin> seg_ID ` set segs"
  by (simp add: SliceToMap_def map_of_eq_None_iff image_image)

lemma LoadBalance_sealed_reject:
  "\<exists>i \<in> set ids. m i = None \<Longrightarrow>
     \<exists>i \<in> set ids. m i = None \<and>
       LoadBalance_sealed s m ids tb =
         Inl (ErrSegmentNotFound i [''segment not found in source node''])"
  by (induction ids arbitrary: tb) (auto simp: Let_def split: option.splits)

lemma LoadBalance_sealed_ok:
  "\<forall>i \<in> set ids. m i \<noteq> None \<Longrightarrow>
     \<exists>tb'. LoadBalance_sealed s m ids tb = Inr tb' \<and>
       set tb' = set tb \<union>
         {sg. \<exists>i \<in> set ids. m i = Some sg \<and>
               targetMgr_GetSealedSegment s (seg_CollectionID sg) (seg_ID sg) CurrentTarget \<noteq> None}"
proof (induction ids arbitrary: tb)
  case Nil
  then show ?case by simp
next
  case (Cons i ids)
  then obtain sg where sg: "m i = Some sg" by auto
  have all: "\<forall>i \<in> set ids. m i \<noteq> None" using Cons.prems by simp
  show ?case
  proof (cases "targetMgr_GetSealedSegment s (seg_CollectionID sg) (seg_ID sg) CurrentTarget = None")
    case True
    from Cons.IH [OF all, of tb] obtain tb' where
      "LoadBalance_sealed s m ids tb = Inr tb'"
      "set tb' = set tb \<union>
         {sg. \<exists>i \<in> set ids. m i = Some sg \<and>
               targetMgr_GetSealedSegment s (seg_CollectionID sg) (seg_ID sg) CurrentTarget \<noteq> None}"
      by blast
    then show ?thesis using sg True by auto
  next
    case False
    from Cons.IH [OF all, of "Set_Insert tb [sg]"] obtain tb' where
      "LoadBalance_sealed s m ids (Set_Insert tb [sg]) = Inr tb'"
      "set tb' = set (Set_Insert tb [sg]) \<union>
         {sg. \<exists>i \<in> set ids. m i = Some sg \<and>
               targetMgr_GetSealedSegment s (seg_CollectionID sg) (seg_ID sg) CurrentTarget \<noteq> None}"
      by blast
    then show ?thesis using sg False by (auto simp: set_Set_Insert)
  qed
qed

text \<open>
  Claim C7. On a healthy coordinator, for a request that has passed the verification of
  its nodes and names sealed segments: if some named segment is not among the segments
  that the distribution reports on the source node for the collection, the request is
  rejected with SegmentNotFound for such a segment and the server is left as it was; if
  all of them are, \<^verbatim>\<open>balanceSegments\<close> is called with exactly those named segments that
  the current target holds, the others being dropped without an error.
\<close>

theorem LoadBalance_explicit_segments:
  assumes "State s = StateCode_Healthy"
    and "LoadBalance_verify s req = Inr (replica, srcNode, dstNodeSet)"
    and "lbq_SealedSegmentIDs req \<noteq> []"
    and "segments = SegmentDistManager_GetByFilter s
                      [WithCollectionID (lbq_CollectionID req), WithNodeID srcNode]"
  shows "((\<exists>i \<in> set (lbq_SealedSegmentIDs req). i \<notin> seg_ID ` set segments) \<longrightarrow>
            (\<exists>i \<in> set (lbq_SealedSegmentIDs req). i \<notin> seg_ID ` set segments \<and>
               LoadBalance s req =
                 (Return (Failure (ErrSegmentNotFound i [''segment not found in source node'']))
                    None, s))) \<and>
         ((\<forall>i \<in> set (lbq_SealedSegmentIDs req). i \<in> seg_ID ` set segments) \<longrightarrow>
            (\<exists>toBalance.
               set toBalance =
                 {sg. \<exists>i \<in> set (lbq_SealedSegmentIDs req).
                        SliceToMap segments (\<lambda>sg. (seg_ID sg, sg)) i = Some sg \<and>
                        targetMgr_GetSealedSegment s (seg_CollectionID sg) (seg_ID sg)
                          CurrentTarget \<noteq> None} \<and>
               LoadBalance s req =
                 (Return (merr_Status (errors_Wrap
                    (balanceSegments s (rep_CollectionID replica) replica srcNode dstNodeSet
                       toBalance True False)
                    (Lit ''failed to balance segments''))) None,
                  s\<lparr>calls := calls s @
                      [Call_balanceSegments (rep_CollectionID replica) replica srcNode dstNodeSet
                         toBalance True False]\<rparr>)))"
proof -
  let ?ids = "lbq_SealedSegmentIDs req"
  let ?m = "SliceToMap segments (\<lambda>sg. (seg_ID sg, sg))"
  have tb: "LoadBalance_toBalance s req srcNode = LoadBalance_sealed s ?m ?ids []"
    using assms(3,4) by (simp add: LoadBalance_toBalance_def Let_def)
  have lb: "LoadBalance s req =
      (case LoadBalance_sealed s ?m ?ids [] of
         Inl err \<Rightarrow> (Return (merr_Status (Some err)) None, s)
       | Inr toBalance \<Rightarrow>
           (Return (merr_Status (errors_Wrap
                    (balanceSegments s (rep_CollectionID replica) replica srcNode dstNodeSet
                       toBalance True False)
                    (Lit ''failed to balance segments''))) None,
            s\<lparr>calls := calls s @
                [Call_balanceSegments (rep_CollectionID replica) replica srcNode dstNodeSet
                   toBalance True False]\<rparr>))"
    using assms(1,2)
    by (auto simp: LoadBalance_def CheckHealthy_def tb Let_def split: sum.splits option.splits)
  have a: "(\<exists>i \<in> set ?ids. i \<notin> seg_ID ` set segments) \<longrightarrow>
            (\<exists>i \<in> set ?ids. i \<notin> seg_ID ` set segments \<and>
               LoadBalance s req =
                 (Return (Failure (ErrSegmentNotFound i [''segment not found in source node'']))
                    None, s))"
  proof
    assume "\<exists>i \<in> set ?ids. i \<notin> seg_ID ` set segments"
    then have "\<exists>i \<in> set ?ids. ?m i = None" by (simp add: SliceToMap_None)
    from LoadBalance_sealed_reject [OF this, of s "[]"]
    obtain i where i: "i \<in> set ?ids" "?m i = None"
      "LoadBalance_sealed s ?m ?ids [] =
         Inl (ErrSegmentNotFound i [''segment not found in source node''])"
      by blast
    have "i \<notin> seg_ID ` set segments" using i(2) by (simp add: SliceToMap_None)
    moreover have "LoadBalance s req =
        (Return (Failure (ErrSegmentNotFound i [''segment not found in source node''])) None, s)"
      by (simp add: lb i(3))
    ultimately show "\<exists>i \<in> set ?ids. i \<notin> seg_ID ` set segments \<and>
               LoadBalance s req =
                 (Return (Failure (ErrSegmentNotFound i [''segment not found in source node'']))
                    None, s)"
      using i(1) by blast
  qed
  have b: "(\<forall>i \<in> set ?ids. i \<in> seg_ID ` set segments) \<longrightarrow>
            (\<exists>toBalance.
               set toBalance =
                 {sg. \<exists>i \<in> set ?ids. ?m i = Some sg \<and>
                        targetMgr_GetSealedSegment s (seg_CollectionID sg) (seg_ID sg)
                          CurrentTarget \<noteq> None} \<and>
               LoadBalance s req =
                 (Return (merr_Status (errors_Wrap
                    (balanceSegments s (rep_CollectionID replica) replica srcNode dstNodeSet
                       toBalance True False)
                    (Lit ''failed to balance segments''))) None,
                  s\<lparr>calls := calls s @
                      [Call_balanceSegments (rep_CollectionID replica) replica srcNode dstNodeSet
                         toBalance True False]\<rparr>))"
  proof
    assume "\<forall>i \<in> set ?ids. i \<in> seg_ID ` set segments"
    then have "\<forall>i \<in> set ?ids. ?m i \<noteq> None" by (simp add: SliceToMap_None)
    from LoadBalance_sealed_ok [OF this, of s "[]"]
    obtain tb' where t: "LoadBalance_sealed s ?m ?ids [] = Inr tb'"
      "set tb' = {sg. \<exists>i \<in> set ?ids. ?m i = Some sg \<and>
                        targetMgr_GetSealedSegment s (seg_CollectionID sg) (seg_ID sg)
                          CurrentTarget \<noteq> None}"
      by auto
    show "\<exists>toBalance.
               set toBalance =
                 {sg. \<exists>i \<in> set ?ids. ?m i = Some sg \<and>
                        targetMgr_GetSealedSegment s (seg_CollectionID sg) (seg_ID sg)
                          CurrentTarget \<noteq> None} \<and>
               LoadBalance s req =
                 (Return (merr_Status (errors_Wrap
                    (balanceSegments s (rep_CollectionID replica) replica srcNode dstNodeSet
                       toBalance True False)
                    (Lit ''failed to balance segments''))) None,
                  s\<lparr>calls := calls s @
                      [Call_balanceSegments (rep_CollectionID replica) replica srcNode dstNodeSet
                         toBalance True False]\<rparr>)"
      using t by (intro exI [of _ tb']) (simp add: lb)
  qed
  show ?thesis using a b by (intro conjI)
qed

text \<open>
  Claim C7, witness: node 1 holds the segments 10 and 11, of which only 10 is in the
  current target. Naming 10 and 11 balances segment 10 alone; naming 10 and 99 is
  rejected with SegmentNotFound for 99.
\<close>

theorem LoadBalance_explicit_segments_witness:
  "State srv_balance = StateCode_Healthy \<and>
   LoadBalance_verify srv_balance (lb_req [1] [2] [10, 11]) = Inr (replica_123, 1, [2]) \<and>
   LoadBalance_verify srv_balance (lb_req [1] [2] [10, 99]) = Inr (replica_123, 1, [2]) \<and>
   SegmentDistManager_GetByFilter srv_balance [WithCollectionID 100, WithNodeID 1] =
     [seg 10, seg 11] \<and>
   (\<exists>toBalance. set toBalance = {seg 10} \<and>
      LoadBalance srv_balance (lb_req [1] [2] [10, 11]) =
        (Return Success None,
         srv_balance\<lparr>calls := [Call_balanceSegments 100 replica_123 1 [2] toBalance True False]\<rparr>)) \<and>
   LoadBalance srv_balance (lb_req [1] [2] [10, 99]) =
     (Return (Failure (ErrSegmentNotFound 99 [''segment not found in source node''])) None,
      srv_balance)"
proof -
  have h1: "State srv_balance = StateCode_Healthy" by (simp add: srv_balance_def srv0_def)
  have v: "LoadBalance_verify srv_balance (lb_req [1] [2] sealed) = Inr (replica_123, 1, [2])"
    for sealed
    by (simp add: LoadBalance_verify_def LoadBalance_dstNodeSet_def isStoppingNode_def
        Set_Insert_def Set_Insert1_def Contains_def srv_balance_def srv0_def lb_req_def
        replica_123_def)
  have h3: "lbq_SealedSegmentIDs (lb_req [1] [2] [10, 11]) \<noteq> []"
    "lbq_SealedSegmentIDs (lb_req [1] [2] [10, 99]) \<noteq> []"
    by (simp_all add: lb_req_def)
  have g: "[seg 10, seg 11] = SegmentDistManager_GetByFilter srv_balance
             [WithCollectionID (lbq_CollectionID (lb_req [1] [2] sealed)), WithNodeID 1]" for sealed
    by (simp add: srv_balance_def srv0_def lb_req_def)
  have q: "lbq_SealedSegmentIDs (lb_req [1] [2] sealed) = sealed" for sealed
    by (simp add: lb_req_def)
  have m: "SliceToMap [seg 10, seg 11] (\<lambda>sg. (seg_ID sg, sg)) 10 = Some (seg 10)"
    "SliceToMap [seg 10, seg 11] (\<lambda>sg. (seg_ID sg, sg)) 11 = Some (seg 11)"
    by (simp_all add: SliceToMap_def seg_def)
  have i: "seg_ID (seg k) = k" "seg_CollectionID (seg k) = 100" for k by (simp_all add: seg_def)
  have t: "targetMgr_GetSealedSegment srv_balance 100 10 CurrentTarget = Some 10"
    "targetMgr_GetSealedSegment srv_balance 100 11 CurrentTarget = None"
    by (simp_all add: srv_balance_def srv0_def)
  have b: "balanceSegments srv_balance c rp src dst sgs cm sy = None" for c rp src dst sgs cm sy
    by (simp add: srv_balance_def srv0_def)
  have c: "calls srv_balance = []" by (simp add: srv_balance_def srv0_def)
  have r: "rep_CollectionID replica_123 = 100" by (simp add: replica_123_def)
  have s1: "{sg. (SliceToMap [seg 10, seg 11] (\<lambda>sg. (seg_ID sg, sg)) 10 = Some sg \<or>
                  SliceToMap [seg 10, seg 11] (\<lambda>sg. (seg_ID sg, sg)) 11 = Some sg) \<and>
               (\<exists>y. targetMgr_GetSealedSegment srv_balance (seg_CollectionID sg) (seg_ID sg)
                 CurrentTarget = Some y)} = {seg 10}"
    by (auto simp: m i t)
  have w1: "\<exists>toBalance. set toBalance = {seg 10} \<and>
      LoadBalance srv_balance (lb_req [1] [2] [10, 11]) =
        (Return Success None,
         srv_balance\<lparr>calls := [Call_balanceSegments 100 replica_123 1 [2] toBalance True False]\<rparr>)"
    using LoadBalance_explicit_segments [OF h1 v h3(1) g]
    by (simp add: q i b c r s1)
  have w2: "LoadBalance srv_balance (lb_req [1] [2] [10, 99]) =
     (Return (Failure (ErrSegmentNotFound 99 [''segment not found in source node''])) None,
      srv_balance)"
    using LoadBalance_explicit_segments [OF h1 v h3(2) g]
    by (simp add: q i)
  have g': "SegmentDistManager_GetByFilter srv_balance [WithCollectionID 100, WithNodeID 1] =
     [seg 10, seg 11]"
    by (simp add: srv_balance_def srv0_def)
  show ?thesis using h1 v g' w1 w2 by simp
qed

section \<open>Shard leaders: all channels or none\<close>

text \<open>
  The part of claim C10 that the code keeps. When \<^verbatim>\<open>GetShardLeaders\<close> returns from
  its loop over the channels, either every channel has its entry in \<^verbatim>\<open>Shards\<close> and the
  status is the one the loop started with, or the status is the failure of one channel
  and \<^verbatim>\<open>Shards\<close> is empty.
\<close>

lemma GetShardLeaders_channels_all_or_nothing:
  "GetShardLeaders_channels s targets chs resp = Return r e \<Longrightarrow>
     (glr_Status r = glr_Status resp \<and>
      map sll_ChannelName (glr_Shards r) = map sll_ChannelName (glr_Shards resp) @ chs) \<or>
     ((\<exists>ch \<in> set chs. \<exists>m. glr_Status r = Failure (Wrap (ErrChannelNotAvailable ch) m)) \<and>
      glr_Shards r = [])"
proof (induction chs arbitrary: resp)
  case Nil
  then show ?case by simp
next
  case (Cons ch chs)
  then show ?case
    by (fastforce simp: Let_def GetShardLeaders_notAvailable_def
        split: if_splits option.splits)
qed

text \<open>
  Claim C10, the code at the failing input. Channel ch0 resolves to node 1. For channel
  ch1 the only leader passes the availability check, so no channel error is recorded,
  and its node has no session any more, so no address is found: the handler reaches
  \<^verbatim>\<open>channelErr.Error()\<close> with a nil \<^verbatim>\<open>channelErr\<close> and panics instead of answering
  ChannelNotAvailable. When the leader fails the availability check instead, the answer
  is the failure status with no shards, although ch0 had been resolved.
\<close>

theorem GetShardLeaders_nil_channelErr_panics:
  "GetShardLeaders srv_leader_gone gl_req = Panic \<and>
   GetShardLeaders srv_leader_unavailable gl_req =
     Return \<lparr>glr_Status = Failure (Wrap (ErrChannelNotAvailable ''ch1'')
                             (ErrorText (ErrExternal ''leader not available''))),
             glr_Shards = []\<rparr> None"
  by (simp add: GetShardLeaders_def GetShardLeaders_notAvailable_def CheckHealthy_def
      srv_leader_unavailable_def srv_leader_gone_def srv0_def gl_req_def coll_loaded_100_def
      leader_def node_def Let_def)

section \<open>No handler returns a Go error\<close>

lemma ShowCollections_loop_nil: "nilError (ShowCollections_loop s g cs resp)"
  by (induction cs arbitrary: resp) (auto simp: Let_def split: option.splits)

lemma ShowCollections_nil: "nilError (fst (ShowCollections s req))"
  by (simp add: ShowCollections_def Let_def ShowCollections_loop_nil split: option.splits)

lemma ShowPartitions_nil: "nilError (fst (ShowPartitions s req))"
  by (simp add: ShowPartitions_def Let_def split: option.splits sum.splits)

lemma LoadCollection_nil: "nilError (fst (LoadCollection s req))"
  by (simp add: LoadCollection_def split: option.splits prod.splits)

lemma LoadPartitions_nil: "nilError (fst (LoadPartitions s req))"
  by (simp add: LoadPartitions_def split: option.splits prod.splits)

lemma ReleaseCollection_nil: "nilError (fst (ReleaseCollection s req))"
  by (simp add: ReleaseCollection_def split: option.splits prod.splits)

lemma ReleasePartitions_nil: "nilError (fst (ReleasePartitions s req))"
  by (simp add: ReleasePartitions_def split: option.splits prod.splits)

lemma GetPartitionStates_nil: "nilError (GetPartitionStates s req)"
  by (simp add: GetPartitionStates_def Let_def split: option.splits LoadType.splits)

lemma GetSegmentInfo_nil: "nilError (GetSegmentInfo s req)"
  by (simp add: GetSegmentInfo_def split: option.splits sum.splits)

lemma SyncNewCreatedPartition_nil: "nilError (fst (SyncNewCreatedPartition s req))"
  by (simp add: SyncNewCreatedPartition_def split: option.splits prod.splits)

lemma LoadBalance_nil: "nilError (fst (LoadBalance s req))"
  by (simp add: LoadBalance_def Let_def split: option.splits sum.splits prod.splits)

lemma ShowConfigurations_nil: "nilError (ShowConfigurations s req)"
  by (simp add: ShowConfigurations_def split: option.splits)

lemma GetMetrics_nil: "nilError (GetMetrics s req)"
  by (simp add: GetMetrics_def Let_def split: option.splits sum.splits)

lemma GetReplicas_nil: "nilError (GetReplicas s req)"
  by (simp add: GetReplicas_def Let_def split: option.splits)

lemma GetShardLeaders_channels_nil: "nilError (GetShardLeaders_channels s t chs resp)"
  by (induction chs arbitrary: resp)
     (auto simp: Let_def GetShardLeaders_notAvailable_def split: option.splits)

lemma GetShardLeaders_nil: "nilError (GetShardLeaders s req)"
  by (simp add: GetShardLeaders_def Let_def GetShardLeaders_channels_nil split: option.splits)

lemma CheckHealth_returns: "\<exists>resp. CheckHealth s = Return resp None"
  by (simp add: CheckHealth_def split: option.splits prod.splits)

lemma CreateResourceGroup_nil: "nilError (fst (CreateResourceGroup s req))"
  by (simp add: CreateResourceGroup_def Let_def split: option.splits)

lemma UpdateResourceGroups_nil: "nilError (fst (UpdateResourceGroups s req))"
  by (simp add: UpdateResourceGroups_def Let_def split: option.splits)

lemma DropResourceGroup_nil: "nilError (fst (DropResourceGroup s req))"
  by (simp add: DropResourceGroup_def Let_def split: option.splits list.splits)

lemma TransferNode_nil: "nilError (fst (TransferNode s req))"
  by (simp add: TransferNode_def Let_def split: option.splits)

lemma TransferReplica_nil: "nilError (fst (TransferReplica s req))"
  by (simp add: TransferReplica_def Let_def split: option.splits)

lemma ListResourceGroups_nil: "nilError (ListResourceGroups s)"
  by (simp add: ListResourceGroups_def Let_def split: option.splits)

lemma DescribeResourceGroup_nil: "nilError (DescribeResourceGroup s req)"
  by (simp add: DescribeResourceGroup_def Let_def split: option.splits)

text \<open>
  Claim C6, as amended. Whenever one of the RPC handlers of this file returns, the Go
  error is nil, whatever the coordinator's state and whatever its collaborators answer:
  every failure is reported through the status of the response. Health checking is no
  exception: \<^verbatim>\<open>CheckHealth\<close> always returns a response with a nil error, also when
  \<^verbatim>\<open>checkNodeHealth\<close> hands it the transport error of a probe.
\<close>

theorem handlers_return_nil_error:
  "nilError (fst (ShowCollections s showCollectionsReq)) \<and>
   nilError (fst (ShowPartitions s showPartitionsReq)) \<and>
   nilError (fst (LoadCollection s loadCollectionReq)) \<and>
   nilError (fst (ReleaseCollection s releaseCollectionReq)) \<and>
   nilError (fst (LoadPartitions s loadPartitionsReq)) \<and>
   nilError (fst (ReleasePartitions s releasePartitionsReq)) \<and>
   nilError (GetPartitionStates s getPartitionStatesReq) \<and>
   nilError (GetSegmentInfo s getSegmentInfoReq) \<and>
   nilError (fst (SyncNewCreatedPartition s syncReq)) \<and>
   nilError (fst (LoadBalance s loadBalanceReq)) \<and>
   nilError (ShowConfigurations s showConfigurationsReq) \<and>
   nilError (GetMetrics s getMetricsReq) \<and>
   nilError (GetReplicas s getReplicasReq) \<and>
   nilError (GetShardLeaders s getShardLeadersReq) \<and>
   (\<exists>resp. CheckHealth s = Return resp None) \<and>
   nilError (fst (CreateResourceGroup s createReq)) \<and>
   nilError (fst (UpdateResourceGroups s updateReq)) \<and>
   nilError (fst (DropResourceGroup s dropReq)) \<and>
   nilError (fst (TransferNode s transferNodeReq)) \<and>
   nilError (fst (TransferReplica s transferReplicaReq)) \<and>
   nilError (ListResourceGroups s) \<and>
   nilError (DescribeResourceGroup s describeReq)"
  by (intro conjI ShowCollections_nil ShowPartitions_nil LoadCollection_nil
      ReleaseCollection_nil LoadPartitions_nil ReleasePartitions_nil GetPartitionStates_nil
      GetSegmentInfo_nil SyncNewCreatedPartition_nil LoadBalance_nil ShowConfigurations_nil
      GetMetrics_nil GetReplicas_nil GetShardLeaders_nil CheckHealth_returns
      CreateResourceGroup_nil UpdateResourceGroups_nil DropResourceGroup_nil TransferNode_nil
      TransferReplica_nil ListResourceGroups_nil DescribeResourceGroup_nil)

text \<open>
  Claim C6, counterexample to the claim as stated: the probe of the only node fails in
  transport, \<^verbatim>\<open>checkNodeHealth\<close> returns that error, and \<^verbatim>\<open>CheckHealth\<close> still returns
  a nil Go error with a success status: the probe fault does not propagate as a hard
  error of the RPC.
\<close>

theorem probe_fault_not_propagated_counterexample:
  "checkNodeHealth srv_one_fault = ([], Some (ErrExternal ''connection refused'')) \<and>
   CheckHealth srv_one_fault =
     Return \<lparr>chr_Status = Success, chr_IsHealthy = False, chr_Reasons = []\<rparr> None"
  by (simp add: CheckHealth_def checkNodeHealth_def CheckHealthy_def srv_one_fault_def
      srv0_def node_def)

text \<open>
  Claim C6, witness: every handler on the coordinator whose only node cannot be probed,
  each with a small request.
\<close>

theorem handlers_return_nil_error_witness:
  "nilError (fst (ShowCollections srv_one_fault \<lparr>scq_CollectionIDs = [100]\<rparr>)) \<and>
   nilError (fst (ShowPartitions srv_one_fault \<lparr>spq_CollectionID = 100, spq_PartitionIDs = [1]\<rparr>)) \<and>
   nilError (fst (LoadCollection srv_one_fault (lc_req [''rgA''] False))) \<and>
   nilError (fst (ReleaseCollection srv_one_fault \<lparr>rcq_CollectionID = 100\<rparr>)) \<and>
   nilError (fst (LoadPartitions srv_one_fault (lp_req [''rgA''] False))) \<and>
   nilError (fst (ReleasePartitions srv_one_fault \<lparr>rpq_CollectionID = 100, rpq_PartitionIDs = []\<rparr>)) \<and>
   nilError (GetPartitionStates srv_one_fault \<lparr>gpq_CollectionID = 100, gpq_PartitionIDs = [1]\<rparr>) \<and>
   nilError (GetSegmentInfo srv_one_fault \<lparr>gsq_CollectionID = 100, gsq_SegmentIDs = [10]\<rparr>) \<and>
   nilError (fst (SyncNewCreatedPartition srv_one_fault \<lparr>snq_CollectionID = 100, snq_PartitionID = 1\<rparr>)) \<and>
   nilError (fst (LoadBalance srv_one_fault (lb_req [1] [] []))) \<and>
   nilError (ShowConfigurations srv_one_fault \<lparr>cfq_Pattern = ''queryCoord''\<rparr>) \<and>
   nilError (GetMetrics srv_one_fault \<lparr>gmq_Request = ''system_info''\<rparr>) \<and>
   nilError (GetReplicas srv_one_fault \<lparr>grq_CollectionID = 100, grq_WithShardNodes = False\<rparr>) \<and>
   nilError (GetShardLeaders srv_one_fault gl_req) \<and>
   (\<exists>resp. CheckHealth srv_one_fault = Return resp None) \<and>
   nilError (fst (CreateResourceGroup srv_one_fault
      \<lparr>crq_ResourceGroup = ''rgA'', crq_Config = \<lparr>rgc_Requests = 1, rgc_Limits = 1\<rparr>\<rparr>)) \<and>
   nilError (fst (UpdateResourceGroups srv_one_fault \<lparr>urq_ResourceGroups = []\<rparr>)) \<and>
   nilError (fst (DropResourceGroup srv_one_fault \<lparr>drq_ResourceGroup = ''rgA''\<rparr>)) \<and>
   nilError (fst (TransferNode srv_one_fault
      \<lparr>tnq_SourceResourceGroup = ''rgA'', tnq_TargetResourceGroup = ''rgB'', tnq_NumNode = 1\<rparr>)) \<and>
   nilError (fst (TransferReplica srv_one_fault transfer_req)) \<and>
   nilError (ListResourceGroups srv_one_fault) \<and>
   nilError (DescribeResourceGroup srv_one_fault \<lparr>dgq_ResourceGroup = ''rgA''\<rparr>)"
  by (rule handlers_return_nil_error)

end
